theory Spec2Isabelle
  imports Complex_Main "HOL-Library.Multiset"
begin

section \<open>JavaScript values used by the controllers\<close>

text \<open>
  JSON numbers and the numeric columns they are stored in are modelled as \<open>real\<close>
  (life values, revolutions) or \<open>int\<close> (counters, HLP counts); timestamps are
  natural numbers (milliseconds of server-local time). A request field that is absent
  is \<open>None\<close>. String operations are the ASCII part of the JavaScript ones.
\<close>

definition is_js_space :: "char \<Rightarrow> bool" where
  "is_js_space c = (of_char c \<in> {9, 10, 11, 12, 13, (32::nat)})"

definition trim :: "string \<Rightarrow> string" where
  "trim s = rev (dropWhile is_js_space (rev (dropWhile is_js_space s)))"

definition upper_char :: "char \<Rightarrow> char" where
  "upper_char c =
     (case map_of (zip ''abcdefghijklmnopqrstuvwxyz'' ''ABCDEFGHIJKLMNOPQRSTUVWXYZ'') c of
        None \<Rightarrow> c
      | Some u \<Rightarrow> u)"

definition toUpperCase :: "string \<Rightarrow> string" where
  "toUpperCase s = map upper_char s"

text \<open>\<open>x ? parseFloat(x) : 0\<close> on a numeric field: absent and zero are both falsy.\<close>

definition parseFloat_or_zero :: "real option \<Rightarrow> real" where
  "parseFloat_or_zero x = (case x of None \<Rightarrow> 0 | Some v \<Rightarrow> (if v \<noteq> 0 then v else 0))"

text \<open>\<open>format ? format.trim().toUpperCase() : null\<close>: absent and empty are both falsy.\<close>

definition normalize_upper :: "string option \<Rightarrow> string option" where
  "normalize_upper f =
     (case f of None \<Rightarrow> None
      | Some s \<Rightarrow> (if s \<noteq> [] then Some (toUpperCase (trim s)) else None))"

text \<open>
  \<open>material_id <= 0\<close> on a string operand: JavaScript converts the string to a number
  and the comparison is false for NaN. Only the sign of the number matters. The
  conversion covers signed decimal literals with fraction and exponent, \<open>Infinity\<close>,
  and the hexadecimal, octal and binary forms; surrounding white space is ignored and
  the empty string converts to 0.
\<close>

definition is_digit :: "char \<Rightarrow> bool" where
  "is_digit c = (48 \<le> (of_char c :: nat) \<and> (of_char c :: nat) \<le> 57)"

definition is_hex_digit :: "char \<Rightarrow> bool" where
  "is_hex_digit c =
     (let n = (of_char c :: nat)
      in (48 \<le> n \<and> n \<le> 57) \<or> (65 \<le> n \<and> n \<le> 70) \<or> (97 \<le> n \<and> n \<le> 102))"

definition is_exponent :: "string \<Rightarrow> bool" where
  "is_exponent s =
     (case s of [] \<Rightarrow> True
      | c # r \<Rightarrow> (c = CHR ''e'' \<or> c = CHR ''E'') \<and>
          (let d = (case r of [] \<Rightarrow> []
                    | x # t \<Rightarrow> if x = CHR ''+'' \<or> x = CHR ''-'' then t else r)
           in d \<noteq> [] \<and> list_all is_digit d))"

text \<open>
  The unsigned decimal literal: \<open>None\<close> when the text is no number, otherwise
  whether the number is zero.
\<close>

definition unsigned_is_zero :: "string \<Rightarrow> bool option" where
  "unsigned_is_zero s =
     (if s = ''Infinity'' then Some False
      else
        let ip = takeWhile is_digit s;
            r1 = dropWhile is_digit s;
            has_dot = (r1 \<noteq> [] \<and> hd r1 = CHR ''.'');
            r2 = (if has_dot then tl r1 else r1);
            fp = (if has_dot then takeWhile is_digit r2 else []);
            r3 = (if has_dot then dropWhile is_digit r2 else r2)
        in if ip = [] \<and> fp = [] then None
           else if \<not> is_exponent r3 then None
           else Some (list_all (\<lambda>c. c = CHR ''0'') (ip @ fp)))"

definition radix_is_zero :: "string \<Rightarrow> bool option" where
  "radix_is_zero s =
     (case s of
        a # b # ds \<Rightarrow>
          if a = CHR ''0'' \<and> b \<in> set ''xXoObB'' \<and> ds \<noteq> [] \<and> list_all is_hex_digit ds
          then Some (list_all (\<lambda>c. c = CHR ''0'') ds) else None
      | _ \<Rightarrow> None)"

definition js_le_zero :: "string \<Rightarrow> bool" where
  "js_le_zero str =
     (let s = trim str
      in if s = [] then True
         else case radix_is_zero s of
           Some z \<Rightarrow> z
         | None \<Rightarrow>
             (case s of
                c # r \<Rightarrow>
                  if c = CHR ''-'' then unsigned_is_zero r \<noteq> None
                  else if c = CHR ''+'' then unsigned_is_zero r = Some True
                  else unsigned_is_zero s = Some True
              | [] \<Rightarrow> True))"

section \<open>Stored data\<close>

text \<open>
  The tables the controllers read and write. The schema is not part of the sources;
  the columns are those named in the queries. Identifiers are assigned by the store
  on insertion, from the counters of the state. A newly inserted ledger entry has
  \<open>is_deleted = False\<close>, and a tool created without life values has both at 0.
\<close>

record inventory_row =
  inventory_id :: nat
  tool_id :: nat
  material_id :: string
  batch_id :: string
  tool_name :: string
  current_factory_id :: nat
  type :: string
  format :: "string option"
  status :: string
  current_tool_life :: real
  baseline_tool_life :: real
  total_hlp :: int
  number_of_regrinding :: int
  number_of_resegmentation :: int
  manufacturer :: "string option"
  web_width :: "string option"

record history_row =
  history_id :: nat
  tmh_tool_id :: nat
  event_type :: string
  tool_life_at_event :: real
  life_consumed :: real
  hlp_count_at_event :: int
  event_sequence :: int
  is_deleted :: bool
  tmh_timestamp :: nat

type_synonym summary_key = "nat \<times> nat \<times> nat"

record summary_row =
  total_ts_revolutions :: real
  total_hlp_run :: int

record db =
  centralized_inventory :: "inventory_row list"
  tool_maintenance_history :: "history_row list"
  daily_tool_summary :: "summary_key \<rightharpoonup> summary_row"
  factories :: "nat list"
  next_inventory_id :: nat
  next_tool_id :: nat
  next_history_id :: nat

record user =
  employee_id :: string
  role :: string
  factory_id :: nat

section \<open>Rollup merge\<close>

text \<open>
  The statement \<open>INSERT INTO daily_tool_summary ... ON CONFLICT (tool_id, machine_id,
  summary_date) DO UPDATE SET total = daily_tool_summary.total + EXCLUDED.total\<close>.
\<close>

definition dailySummaryInsert ::
  "nat \<Rightarrow> nat \<Rightarrow> nat \<Rightarrow> real \<Rightarrow> int \<Rightarrow> (summary_key \<rightharpoonup> summary_row)
     \<Rightarrow> (summary_key \<rightharpoonup> summary_row)" where
  "dailySummaryInsert tid mid summary_date revs hlp m =
     (case m (tid, mid, summary_date) of
        None \<Rightarrow>
          m((tid, mid, summary_date) \<mapsto>
              \<lparr>total_ts_revolutions = revs, total_hlp_run = hlp\<rparr>)
      | Some row \<Rightarrow>
          m((tid, mid, summary_date) \<mapsto>
              \<lparr>total_ts_revolutions = total_ts_revolutions row + revs,
               total_hlp_run = total_hlp_run row + hlp\<rparr>))"

text \<open>The calendar day of a timestamp, the bucket key of the rollup.\<close>

definition dateString :: "nat \<Rightarrow> nat" where
  "dateString ts = ts div 86400000"

section \<open>Historical import (createHistoricalTools)\<close>

text \<open>
  One element of \<open>req.body.tools\<close> and one element of its \<open>lifecycle_events\<close>.
  The required text fields are the empty string when absent, which the source's
  truthiness tests do not distinguish from absent. The \<open>ups\<close> side table is left out.
\<close>

record lifecycle_event =
  ev_event_type :: string
  ev_life_value :: "real option"
  ev_date :: "nat option"
  ev_sequence :: "int option"

record tool_import =
  imp_material_id :: string
  imp_batch_id :: string
  imp_tool_name :: string
  imp_current_factory_id :: "nat option"
  imp_type :: string
  imp_format :: "string option"
  imp_status :: "string option"
  imp_current_tool_life :: "real option"
  imp_lifecycle_events :: "lifecycle_event list"

datatype import_error =
    MissingRequiredFields
  | MaterialIdNotPositive
  | InvalidType
  | FactoryNotSpecified
  | FactoryDoesNotExist nat

record success_entry =
  s_row :: nat
  s_tool :: "string \<times> string \<times> string"
  s_tool_id :: nat
  s_events_imported :: nat

record error_entry =
  e_row :: nat
  e_tool :: "string \<times> string \<times> string"
  e_error :: import_error

record import_results =
  success :: "success_entry list"
  errors :: "error_entry list"

datatype import_response =
    BadRequest
  | ImportCompleted nat import_results

definition tool_label :: "tool_import \<Rightarrow> string \<times> string \<times> string" where
  "tool_label t = (imp_material_id t, imp_batch_id t, imp_tool_name t)"

text \<open>
  The checks made on one tool before its transaction starts, in source order. The same
  sequence of checks opens \<open>createInventoryTool\<close>.
\<close>

definition validate_tool ::
  "user \<Rightarrow> nat list \<Rightarrow> string \<Rightarrow> string \<Rightarrow> string \<Rightarrow> string \<Rightarrow> nat option
     \<Rightarrow> import_error + nat" where
  "validate_tool u facs mat bat nam ty fac =
     (if mat = [] \<or> bat = [] \<or> nam = [] \<or> ty = []
      then Inl MissingRequiredFields
      else if js_le_zero mat then Inl MaterialIdNotPositive
      else if ty \<notin> set [''cutting'', ''creasing'', ''embossing''] then Inl InvalidType
      else
        (case (if role u \<noteq> ''BusinessAdmin'' then Some (factory_id u)
               else (case fac of
                       None \<Rightarrow> None
                     | Some f \<Rightarrow> if f = 0 then None else Some f)) of
           None \<Rightarrow> Inl FactoryNotSpecified
         | Some factoryId \<Rightarrow>
             if factoryId \<in> set facs then Inr factoryId
             else Inl (FactoryDoesNotExist factoryId)))"

definition validate_import :: "user \<Rightarrow> nat list \<Rightarrow> tool_import \<Rightarrow> import_error + nat" where
  "validate_import u facs t =
     validate_tool u facs (imp_material_id t) (imp_batch_id t) (imp_tool_name t) (imp_type t)
       (imp_current_factory_id t)"

text \<open>A tool of the batch is valid when it passes these checks.\<close>

definition valid_import :: "user \<Rightarrow> nat list \<Rightarrow> tool_import \<Rightarrow> bool" where
  "valid_import u facs t = (case validate_import u facs t of Inl _ \<Rightarrow> False | Inr _ \<Rightarrow> True)"

definition regrindCount :: "lifecycle_event list \<Rightarrow> int" where
  "regrindCount evs = int (length (filter (\<lambda>e. ev_event_type e = ''regrinding'') evs))"

definition resegCount :: "lifecycle_event list \<Rightarrow> int" where
  "resegCount evs = int (length (filter (\<lambda>e. ev_event_type e = ''resegmentation'') evs))"

definition insert_historical_tool :: "nat \<Rightarrow> tool_import \<Rightarrow> db \<Rightarrow> inventory_row \<times> db" where
  "insert_historical_tool factoryId t d =
     (let toolLife = parseFloat_or_zero (imp_current_tool_life t);
          newTool = \<lparr>inventory_id = next_inventory_id d,
                     tool_id = next_tool_id d,
                     material_id = imp_material_id t,
                     batch_id = imp_batch_id t,
                     tool_name = imp_tool_name t,
                     current_factory_id = factoryId,
                     type = imp_type t,
                     format = normalize_upper (imp_format t),
                     status = (case imp_status t of
                                 None \<Rightarrow> ''not in use''
                               | Some s \<Rightarrow> if s \<noteq> [] then s else ''not in use''),
                     current_tool_life = toolLife,
                     baseline_tool_life = toolLife,
                     total_hlp = 0,
                     number_of_regrinding = regrindCount (imp_lifecycle_events t),
                     number_of_resegmentation = resegCount (imp_lifecycle_events t),
                     manufacturer = None,
                     web_width = None\<rparr>
      in (newTool,
          d\<lparr>centralized_inventory := centralized_inventory d @ [newTool],
            next_inventory_id := Suc (next_inventory_id d),
            next_tool_id := Suc (next_tool_id d)\<rparr>))"

text \<open>\<open>INSERT INTO tool_maintenance_history\<close>: the store assigns \<open>history_id\<close>.\<close>

definition insert_history ::
  "nat \<Rightarrow> string \<Rightarrow> real \<Rightarrow> real \<Rightarrow> int \<Rightarrow> int \<Rightarrow> nat \<Rightarrow> db \<Rightarrow> history_row \<times> db" where
  "insert_history tid ety life_at consumed hlp sequence ts d =
     (let h = \<lparr>history_id = next_history_id d,
               tmh_tool_id = tid,
               event_type = ety,
               tool_life_at_event = life_at,
               life_consumed = consumed,
               hlp_count_at_event = hlp,
               event_sequence = sequence,
               is_deleted = False,
               tmh_timestamp = ts\<rparr>
      in (h, d\<lparr>tool_maintenance_history := tool_maintenance_history d @ [h],
               next_history_id := Suc (next_history_id d)\<rparr>))"

text \<open>
  The loop over \<open>lifecycle_events\<close>, in the order given, carrying
  \<open>previousLifeValue\<close> and \<open>eventsInserted\<close>; \<open>now\<close> is the clock read by
  \<open>new Date()\<close> when an event has no date.
\<close>

fun replay_events ::
  "nat \<Rightarrow> nat \<Rightarrow> lifecycle_event list \<Rightarrow> real \<Rightarrow> nat \<Rightarrow> db \<Rightarrow> nat \<times> db" where
  "replay_events tid now [] previousLifeValue eventsInserted d = (eventsInserted, d)"
| "replay_events tid now (e # es) previousLifeValue eventsInserted d =
     (if ev_event_type e = ''initial''
      then replay_events tid now es previousLifeValue eventsInserted d
      else
        let eventDate = (case ev_date e of
                           None \<Rightarrow> now
                         | Some ts \<Rightarrow> if ts \<noteq> 0 then ts else now);
            currentLifeValue = (case ev_life_value e of None \<Rightarrow> 0 | Some v \<Rightarrow> v);
            lifeConsumed = currentLifeValue - previousLifeValue;
            sequence = (case ev_sequence e of
                          None \<Rightarrow> 1
                        | Some q \<Rightarrow> if q \<noteq> 0 then q else 1);
            d1 = snd (insert_history tid (ev_event_type e) currentLifeValue lifeConsumed
                        0 sequence eventDate d);
            lifeGained = currentLifeValue - previousLifeValue;
            d2 = d1\<lparr>daily_tool_summary :=
                       dailySummaryInsert tid 1 (dateString eventDate) lifeGained 0
                         (daily_tool_summary d1)\<rparr>
        in replay_events tid now es currentLifeValue (Suc eventsInserted) d2)"

text \<open>One iteration of the loop over the batch: the outcome of tool number \<open>i + 1\<close>.\<close>

definition import_tool ::
  "user \<Rightarrow> nat \<Rightarrow> nat \<Rightarrow> tool_import \<Rightarrow> import_results \<times> db \<Rightarrow> import_results \<times> db" where
  "import_tool u now i t rd =
     (let results = fst rd; d = snd rd
      in case validate_import u (factories d) t of
           Inl err \<Rightarrow>
             (results\<lparr>errors := errors results @
                 [\<lparr>e_row = i + 1, e_tool = tool_label t, e_error = err\<rparr>]\<rparr>, d)
         | Inr factoryId \<Rightarrow>
             let (newTool, d1) = insert_historical_tool factoryId t d;
                 (eventsInserted, d2) =
                    replay_events (tool_id newTool) now (imp_lifecycle_events t) 0 0 d1
             in (results\<lparr>success := success results @
                   [\<lparr>s_row = i + 1, s_tool = tool_label t, s_tool_id = tool_id newTool,
                     s_events_imported = eventsInserted\<rparr>]\<rparr>, d2))"

fun import_loop ::
  "user \<Rightarrow> nat \<Rightarrow> nat \<Rightarrow> tool_import list \<Rightarrow> import_results \<times> db \<Rightarrow> import_results \<times> db" where
  "import_loop u now i [] rd = rd"
| "import_loop u now i (t # ts) rd = import_loop u now (Suc i) ts (import_tool u now i t rd)"

definition responseCode :: "import_results \<Rightarrow> nat" where
  "responseCode results =
     (if length (errors results) > 0
      then (if length (success results) > 0 then 207 else 400)
      else 201)"

definition createHistoricalTools ::
  "user \<Rightarrow> nat \<Rightarrow> tool_import list \<Rightarrow> db \<Rightarrow> import_response \<times> db" where
  "createHistoricalTools u now tools d =
     (if tools = [] then (BadRequest, d)
      else
        let (results, d') = import_loop u now 0 tools (\<lparr>success = [], errors = []\<rparr>, d)
        in (ImportCompleted (responseCode results) results, d'))"

section \<open>Tool creation (createInventoryTool)\<close>

record create_request =
  crt_material_id :: string
  crt_batch_id :: string
  crt_tool_name :: string
  crt_current_factory_id :: "nat option"
  crt_type :: string
  crt_format :: "string option"
  crt_status :: "string option"
  crt_number_of_regrinding :: "int option"
  crt_number_of_resegmentation :: "int option"

datatype create_response =
    CreateRejected import_error
  | Created inventory_row

definition createInventoryTool :: "user \<Rightarrow> create_request \<Rightarrow> db \<Rightarrow> create_response \<times> db" where
  "createInventoryTool u req d =
     (case validate_tool u (factories d) (crt_material_id req) (crt_batch_id req)
             (crt_tool_name req) (crt_type req) (crt_current_factory_id req) of
        Inl err \<Rightarrow> (CreateRejected err, d)
      | Inr factoryId \<Rightarrow>
          let newTool = \<lparr>inventory_id = next_inventory_id d,
                         tool_id = next_tool_id d,
                         material_id = crt_material_id req,
                         batch_id = crt_batch_id req,
                         tool_name = crt_tool_name req,
                         current_factory_id = factoryId,
                         type = crt_type req,
                         format = normalize_upper (crt_format req),
                         status = (case crt_status req of
                                     None \<Rightarrow> ''not in use''
                                   | Some s \<Rightarrow> if s \<noteq> [] then s else ''not in use''),
                         current_tool_life = 0,
                         baseline_tool_life = 0,
                         total_hlp = 0,
                         number_of_regrinding =
                           (case crt_number_of_regrinding req of None \<Rightarrow> 0 | Some n \<Rightarrow> n),
                         number_of_resegmentation =
                           (case crt_number_of_resegmentation req of None \<Rightarrow> 0 | Some n \<Rightarrow> n),
                         manufacturer = None,
                         web_width = None\<rparr>
          in (Created newTool,
              d\<lparr>centralized_inventory := centralized_inventory d @ [newTool],
                next_inventory_id := Suc (next_inventory_id d),
                next_tool_id := Suc (next_tool_id d)\<rparr>))"

section \<open>Tool update with maintenance tracking (updateInventoryTool)\<close>

record update_request =
  upd_status :: "string option"
  upd_current_factory_id :: "nat option"
  upd_format :: "string option"
  upd_life_consumed :: "real option"
  upd_tool_name :: "string option"
  upd_material_id :: "string option"
  upd_batch_id :: "string option"
  upd_type :: "string option"
  upd_manufacturer :: "string option"
  upd_web_width :: "string option"

record maintenance_event =
  me_type :: string
  me_countField :: string
  me_newCount :: int
  me_lifeConsumed :: real

text \<open>The object \<open>fieldsToUpdate\<close>: a field is \<open>Some\<close> when the source assigns it.\<close>

record fields_to_update =
  fu_status :: "string option"
  fu_number_of_regrinding :: "int option"
  fu_number_of_resegmentation :: "int option"
  fu_current_tool_life :: "real option"
  fu_current_factory_id :: "nat option"
  fu_format :: "string option option"
  fu_tool_name :: "string option"
  fu_material_id :: "string option"
  fu_batch_id :: "string option"
  fu_type :: "string option"
  fu_manufacturer :: "string option"
  fu_web_width :: "string option option"

definition no_fields :: fields_to_update where
  "no_fields = \<lparr>fu_status = None, fu_number_of_regrinding = None,
      fu_number_of_resegmentation = None, fu_current_tool_life = None,
      fu_current_factory_id = None, fu_format = None, fu_tool_name = None,
      fu_material_id = None, fu_batch_id = None, fu_type = None, fu_manufacturer = None,
      fu_web_width = None\<rparr>"

definition truthy_number :: "real option \<Rightarrow> bool" where
  "truthy_number x = (case x of None \<Rightarrow> False | Some v \<Rightarrow> v \<noteq> 0)"

text \<open>Step 2 of the source, the status field: the only place a maintenance event arises.\<close>

definition check_status ::
  "update_request \<Rightarrow> inventory_row \<Rightarrow> fields_to_update \<times> bool \<times> maintenance_event option" where
  "check_status req currentTool =
     (case upd_status req of
        None \<Rightarrow> (no_fields, False, None)
      | Some st \<Rightarrow>
          if st = status currentTool then (no_fields, False, None)
          else
            let f0 = no_fields\<lparr>fu_status := Some st\<rparr>
            in if st = ''sent to madern for regrinding'' then
                 let ev = \<lparr>me_type = ''regrinding'', me_countField = ''number_of_regrinding'',
                            me_newCount = number_of_regrinding currentTool + 1,
                            me_lifeConsumed = parseFloat_or_zero (upd_life_consumed req)\<rparr>;
                     f1 = f0\<lparr>fu_number_of_regrinding := Some (me_newCount ev)\<rparr>;
                     f2 = (if truthy_number (upd_life_consumed req)
                           then f1\<lparr>fu_current_tool_life :=
                                     Some (current_tool_life currentTool
                                            + parseFloat_or_zero (upd_life_consumed req))\<rparr>
                           else f1)
                 in (f2, True, Some ev)
               else if st = ''sent to madern for resegmentation'' then
                 let ev = \<lparr>me_type = ''resegmentation'',
                            me_countField = ''number_of_resegmentation'',
                            me_newCount = number_of_resegmentation currentTool + 1,
                            me_lifeConsumed = parseFloat_or_zero (upd_life_consumed req)\<rparr>;
                     f1 = f0\<lparr>fu_number_of_resegmentation := Some (me_newCount ev)\<rparr>;
                     f2 = (if truthy_number (upd_life_consumed req)
                           then f1\<lparr>fu_current_tool_life :=
                                     Some (current_tool_life currentTool
                                            + parseFloat_or_zero (upd_life_consumed req))\<rparr>
                           else f1)
                 in (f2, True, Some ev)
               else (f0, True, None))"

text \<open>The remaining field checks of step 2, one definition per check, in source order.\<close>

definition check_current_factory_id ::
  "update_request \<Rightarrow> inventory_row \<Rightarrow> fields_to_update \<times> bool \<Rightarrow> fields_to_update \<times> bool" where
  "check_current_factory_id req currentTool fh =
     (case upd_current_factory_id req of
        None \<Rightarrow> fh
      | Some v \<Rightarrow> if v \<noteq> current_factory_id currentTool
                  then ((fst fh)\<lparr>fu_current_factory_id := Some v\<rparr>, True) else fh)"

definition upper_or_null :: "string option \<Rightarrow> string option" where
  "upper_or_null c =
     (case c of None \<Rightarrow> None | Some s \<Rightarrow> if s \<noteq> [] then Some (toUpperCase s) else None)"

definition check_format ::
  "update_request \<Rightarrow> inventory_row \<Rightarrow> fields_to_update \<times> bool \<Rightarrow> fields_to_update \<times> bool" where
  "check_format req currentTool fh =
     (case upd_format req of
        None \<Rightarrow> fh
      | Some v \<Rightarrow>
          let normalizedFormat = normalize_upper (Some v);
              currentFormat = upper_or_null (format currentTool)
          in if normalizedFormat \<noteq> currentFormat
             then ((fst fh)\<lparr>fu_format := Some normalizedFormat\<rparr>, True) else fh)"

definition check_tool_name ::
  "update_request \<Rightarrow> inventory_row \<Rightarrow> fields_to_update \<times> bool \<Rightarrow> fields_to_update \<times> bool" where
  "check_tool_name req currentTool fh =
     (case upd_tool_name req of
        None \<Rightarrow> fh
      | Some v \<Rightarrow> if v \<noteq> tool_name currentTool
                  then ((fst fh)\<lparr>fu_tool_name := Some (trim v)\<rparr>, True) else fh)"

definition check_material_id ::
  "update_request \<Rightarrow> inventory_row \<Rightarrow> fields_to_update \<times> bool \<Rightarrow> fields_to_update \<times> bool" where
  "check_material_id req currentTool fh =
     (case upd_material_id req of
        None \<Rightarrow> fh
      | Some v \<Rightarrow> if v \<noteq> material_id currentTool
                  then ((fst fh)\<lparr>fu_material_id := Some (trim v)\<rparr>, True) else fh)"

definition check_batch_id ::
  "update_request \<Rightarrow> inventory_row \<Rightarrow> fields_to_update \<times> bool \<Rightarrow> fields_to_update \<times> bool" where
  "check_batch_id req currentTool fh =
     (case upd_batch_id req of
        None \<Rightarrow> fh
      | Some v \<Rightarrow> if v \<noteq> batch_id currentTool
                  then ((fst fh)\<lparr>fu_batch_id := Some (trim v)\<rparr>, True) else fh)"

definition check_type ::
  "update_request \<Rightarrow> inventory_row \<Rightarrow> fields_to_update \<times> bool \<Rightarrow> fields_to_update \<times> bool" where
  "check_type req currentTool fh =
     (case upd_type req of
        None \<Rightarrow> fh
      | Some v \<Rightarrow> if v \<noteq> type currentTool
                  then ((fst fh)\<lparr>fu_type := Some (trim v)\<rparr>, True) else fh)"

definition check_manufacturer ::
  "update_request \<Rightarrow> inventory_row \<Rightarrow> fields_to_update \<times> bool \<Rightarrow> fields_to_update \<times> bool" where
  "check_manufacturer req currentTool fh =
     (case upd_manufacturer req of
        None \<Rightarrow> fh
      | Some v \<Rightarrow> if Some v \<noteq> manufacturer currentTool
                  then ((fst fh)\<lparr>fu_manufacturer := Some (trim v)\<rparr>, True) else fh)"

definition check_web_width ::
  "update_request \<Rightarrow> inventory_row \<Rightarrow> fields_to_update \<times> bool \<Rightarrow> fields_to_update \<times> bool" where
  "check_web_width req currentTool fh =
     (case upd_web_width req of
        None \<Rightarrow> fh
      | Some v \<Rightarrow>
          let normalizedWebWidth = normalize_upper (Some v);
              currentWebWidth = upper_or_null (web_width currentTool)
          in if normalizedWebWidth \<noteq> currentWebWidth
             then ((fst fh)\<lparr>fu_web_width := Some normalizedWebWidth\<rparr>, True) else fh)"

definition check_fields ::
  "update_request \<Rightarrow> inventory_row \<Rightarrow> fields_to_update \<times> bool \<Rightarrow> fields_to_update \<times> bool" where
  "check_fields req currentTool fh =
     check_web_width req currentTool
       (check_manufacturer req currentTool
         (check_type req currentTool
           (check_batch_id req currentTool
             (check_material_id req currentTool
               (check_tool_name req currentTool
                 (check_format req currentTool
                   (check_current_factory_id req currentTool fh)))))))"

text \<open>The dynamic \<open>UPDATE ... SET\<close> of step 5 on one row: only assigned fields are set.\<close>

definition apply_fields :: "fields_to_update \<Rightarrow> inventory_row \<Rightarrow> inventory_row" where
  "apply_fields f r =
     r\<lparr>status := (case fu_status f of None \<Rightarrow> status r | Some v \<Rightarrow> v),
       number_of_regrinding :=
         (case fu_number_of_regrinding f of None \<Rightarrow> number_of_regrinding r | Some v \<Rightarrow> v),
       number_of_resegmentation :=
         (case fu_number_of_resegmentation f of
            None \<Rightarrow> number_of_resegmentation r | Some v \<Rightarrow> v),
       current_tool_life :=
         (case fu_current_tool_life f of None \<Rightarrow> current_tool_life r | Some v \<Rightarrow> v),
       current_factory_id :=
         (case fu_current_factory_id f of None \<Rightarrow> current_factory_id r | Some v \<Rightarrow> v),
       format := (case fu_format f of None \<Rightarrow> format r | Some v \<Rightarrow> v),
       tool_name := (case fu_tool_name f of None \<Rightarrow> tool_name r | Some v \<Rightarrow> v),
       material_id := (case fu_material_id f of None \<Rightarrow> material_id r | Some v \<Rightarrow> v),
       batch_id := (case fu_batch_id f of None \<Rightarrow> batch_id r | Some v \<Rightarrow> v),
       type := (case fu_type f of None \<Rightarrow> type r | Some v \<Rightarrow> v),
       manufacturer :=
         (case fu_manufacturer f of None \<Rightarrow> manufacturer r | Some v \<Rightarrow> Some v),
       web_width := (case fu_web_width f of None \<Rightarrow> web_width r | Some v \<Rightarrow> v)\<rparr>"

text \<open>\<open>MAX\<close> over a column: \<open>None\<close> (SQL NULL) on no rows.\<close>

fun sql_max :: "'a::linorder list \<Rightarrow> 'a option" where
  "sql_max [] = None"
| "sql_max (x # xs) = (case sql_max xs of None \<Rightarrow> Some x | Some m \<Rightarrow> Some (max x m))"

text \<open>\<open>SELECT COALESCE(MAX(event_sequence), 0) + 1 ... WHERE tool_id = $1 AND event_type = $2\<close>\<close>

definition next_sequence :: "history_row list \<Rightarrow> nat \<Rightarrow> string \<Rightarrow> int" where
  "next_sequence ledger tid ety =
     (case sql_max (map event_sequence
                      (filter (\<lambda>h. tmh_tool_id h = tid \<and> event_type h = ety) ledger)) of
        None \<Rightarrow> 0 | Some m \<Rightarrow> m) + 1"

text \<open>
  \<open>SELECT tool_life_at_event ... WHERE tool_id = $1 AND is_deleted = FALSE
  ORDER BY tool_life_at_event DESC LIMIT 1\<close>, and 0 on no rows.
\<close>

definition previousLifeAtEvent :: "history_row list \<Rightarrow> nat \<Rightarrow> real" where
  "previousLifeAtEvent ledger tid =
     (case sql_max (map tool_life_at_event
                      (filter (\<lambda>h. tmh_tool_id h = tid \<and> \<not> is_deleted h) ledger)) of
        None \<Rightarrow> 0 | Some m \<Rightarrow> m)"

datatype update_response =
    ToolNotFound
  | Forbidden
  | NoChanges inventory_row
  | Updated inventory_row "history_row option"

text \<open>
  \<open>now\<close> is \<open>CURRENT_TIMESTAMP\<close>. The row returned by \<open>UPDATE ... RETURNING *\<close> is
  the row read in step 1 with the assigned fields set.
\<close>

definition updateInventoryTool ::
  "user \<Rightarrow> nat \<Rightarrow> nat \<Rightarrow> update_request \<Rightarrow> db \<Rightarrow> update_response \<times> db" where
  "updateInventoryTool u now inventoryId req d =
     (case filter (\<lambda>r. inventory_id r = inventoryId) (centralized_inventory d) of
        [] \<Rightarrow> (ToolNotFound, d)
      | currentTool # _ \<Rightarrow>
          if role u = ''UnitAdmin'' \<and> factory_id u \<noteq> current_factory_id currentTool
          then (Forbidden, d)
          else
            let (f0, h0, maintenanceEvent) = check_status req currentTool;
                (fieldsToUpdate, hasChanges) = check_fields req currentTool (f0, h0)
            in if \<not> hasChanges then (NoChanges currentTool, d)
               else
                 let updatedTool = apply_fields fieldsToUpdate currentTool;
                     d1 = d\<lparr>centralized_inventory :=
                              map (\<lambda>r. if inventory_id r = inventoryId
                                        then apply_fields fieldsToUpdate r else r)
                                (centralized_inventory d)\<rparr>
                 in case maintenanceEvent of
                      None \<Rightarrow> (Updated updatedTool None, d1)
                    | Some ev \<Rightarrow>
                        let eventSequence =
                              next_sequence (tool_maintenance_history d1)
                                (tool_id updatedTool) (me_type ev);
                            calculatedLifeConsumed =
                              current_tool_life updatedTool
                                - previousLifeAtEvent (tool_maintenance_history d1)
                                    (tool_id updatedTool);
                            (h, d2) = insert_history (tool_id updatedTool) (me_type ev)
                                        (current_tool_life updatedTool) calculatedLifeConsumed
                                        (total_hlp updatedTool) eventSequence now d1
                        in (Updated updatedTool (Some h), d2))"

section \<open>Reversal of a maintenance event (deleteMaintenanceHistory)\<close>

datatype delete_response =
    HistoryNotFound
  | InventoryNotFound
  | Deleted bool history_row inventory_row

definition deleteMaintenanceHistory :: "nat \<Rightarrow> db \<Rightarrow> delete_response \<times> db" where
  "deleteMaintenanceHistory historyId d =
     (case filter (\<lambda>h. history_id h = historyId) (tool_maintenance_history d) of
        [] \<Rightarrow> (HistoryNotFound, d)
      | record # _ \<Rightarrow>
          (case filter (\<lambda>r. tool_id r = tmh_tool_id record) (centralized_inventory d) of
             [] \<Rightarrow> (InventoryNotFound, d)
           | currentData # _ \<Rightarrow>
               let newCount = (if event_type record = ''regrinding''
                               then max 0 (number_of_regrinding currentData - 1)
                               else max 0 (number_of_resegmentation currentData - 1));
                   shouldRevertStatus =
                     ((event_type record = ''regrinding''
                         \<and> status currentData = ''sent to madern for regrinding''
                         \<and> newCount = 0)
                      \<or> (event_type record = ''resegmentation''
                         \<and> status currentData = ''sent to madern for resegmentation''
                         \<and> newCount = 0));
                   decrement = (\<lambda>r.
                     let r1 = (if event_type record = ''regrinding''
                               then r\<lparr>number_of_regrinding := number_of_regrinding r - 1\<rparr>
                               else r\<lparr>number_of_resegmentation :=
                                        number_of_resegmentation r - 1\<rparr>)
                     in if shouldRevertStatus then r1\<lparr>status := ''running''\<rparr> else r1)
               in (Deleted shouldRevertStatus record (decrement currentData),
                   d\<lparr>tool_maintenance_history :=
                        filter (\<lambda>h. history_id h \<noteq> historyId) (tool_maintenance_history d),
                     centralized_inventory :=
                        map (\<lambda>r. if tool_id r = tmh_tool_id record then decrement r else r)
                          (centralized_inventory d)\<rparr>)))"

section \<open>Active-tool resolution (getActiveMachinesByType, getToolChartData)\<close>

record drive_status_row =
  ds_tool_id :: nat
  ds_machine_id :: nat
  ds_status :: string
  ds_timestamp :: nat

record tools_row =
  t_tool_id :: nat
  t_tool_name :: string
  t_tool_type :: string

record machines_row =
  m_machine_id :: nat
  m_machine_name :: string
  m_factory_id :: nat

record factory_row =
  f_factory_id :: nat
  f_name :: string

record active_machine =
  am_machine_id :: nat
  am_machine_name :: string
  am_factory_id :: nat
  am_factory_name :: "string option"

text \<open>
  \<open>ORDER BY tool_id, timestamp DESC\<close>: the executor may hand over the rows in any
  order that is sorted by this key; rows equal on the key come in no fixed order. The
  predicate says that \<open>srt\<close> is such an order of \<open>rows\<close>.
\<close>

abbreviation (input) ds_before :: "drive_status_row \<Rightarrow> drive_status_row \<Rightarrow> bool" where
  "ds_before a b \<equiv> ds_tool_id a < ds_tool_id b
                    \<or> (ds_tool_id a = ds_tool_id b \<and> ds_timestamp b \<le> ds_timestamp a)"

definition order_by_tool_ts :: "drive_status_row list \<Rightarrow> drive_status_row list \<Rightarrow> bool" where
  "order_by_tool_ts rows srt =
     (mset srt = mset rows \<and>
      sorted_wrt (\<lambda>a b. ds_tool_id a < ds_tool_id b
                    \<or> (ds_tool_id a = ds_tool_id b \<and> ds_timestamp b \<le> ds_timestamp a)) srt)"

text \<open>\<open>SELECT DISTINCT ON (tool_id)\<close> keeps the first row of each run of equal \<open>tool_id\<close>.\<close>

fun distinct_on_tool :: "drive_status_row list \<Rightarrow> drive_status_row list" where
  "distinct_on_tool [] = []"
| "distinct_on_tool [x] = [x]"
| "distinct_on_tool (x # y # xs) =
     (if ds_tool_id x = ds_tool_id y then distinct_on_tool (x # xs)
      else x # distinct_on_tool (y # xs))"

text \<open>
  The join of \<open>getActiveMachinesByType\<close> below the CTE \<open>latest_tool_status\<close>:
  \<open>srt\<close> is the ordered \<open>drive_status\<close> table, \<open>factoryId = None\<close> is the scope
  \<open>'all'\<close>. The status and type tests are in the \<open>WHERE\<close> of the outer query.
\<close>

definition active_join ::
  "drive_status_row list \<Rightarrow> tools_row list \<Rightarrow> machines_row list \<Rightarrow> nat option \<Rightarrow> string
     \<Rightarrow> (drive_status_row \<times> tools_row \<times> machines_row) list" where
  "active_join srt tools machines factoryId toolType =
     concat (map (\<lambda>lts.
       concat (map (\<lambda>t.
         concat (map (\<lambda>m.
           if ds_tool_id lts = t_tool_id t \<and> ds_machine_id lts = m_machine_id m
              \<and> ds_status lts = ''in_drive''
              \<and> (case factoryId of None \<Rightarrow> True | Some f \<Rightarrow> m_factory_id m = f)
              \<and> toUpperCase (t_tool_type t) = toUpperCase toolType
           then [(lts, t, m)] else []) machines)) tools)) (distinct_on_tool srt))"

text \<open>
  \<open>LEFT JOIN factories\<close> and \<open>SELECT DISTINCT\<close>; the final \<open>ORDER BY\<close> by names
  permutes this list.
\<close>

definition getActiveMachinesByType ::
  "drive_status_row list \<Rightarrow> tools_row list \<Rightarrow> machines_row list \<Rightarrow> factory_row list
     \<Rightarrow> nat option \<Rightarrow> string \<Rightarrow> active_machine list" where
  "getActiveMachinesByType srt tools machines facs factoryId toolType =
     remdups (concat (map (\<lambda>(lts, t, m).
        let names = map f_name (filter (\<lambda>f. f_factory_id f = m_factory_id m) facs)
        in map (\<lambda>n. \<lparr>am_machine_id = m_machine_id m, am_machine_name = m_machine_name m,
                      am_factory_id = m_factory_id m, am_factory_name = n\<rparr>)
             (if names = [] then [None] else map Some names))
       (active_join srt tools machines factoryId toolType)))"

text \<open>
  The CTEs of \<open>getToolChartData\<close>: \<open>srt\<close> is the ordered selection
  \<open>WHERE machine_id = $1\<close> of \<open>drive_status\<close>; \<open>target_tool\<close> is the join before
  its \<open>LIMIT 1\<close>, which returns one of these rows.
\<close>

definition on_machine :: "nat \<Rightarrow> drive_status_row list \<Rightarrow> drive_status_row list" where
  "on_machine machineId rows = filter (\<lambda>r. ds_machine_id r = machineId) rows"

definition target_tool ::
  "drive_status_row list \<Rightarrow> tools_row list \<Rightarrow> string \<Rightarrow> (drive_status_row \<times> tools_row) list" where
  "target_tool srt tools toolType =
     concat (map (\<lambda>lsom.
       concat (map (\<lambda>t.
         if ds_tool_id lsom = t_tool_id t \<and> ds_status lsom = ''in_drive''
            \<and> toUpperCase (t_tool_type t) = toUpperCase toolType
         then [(lsom, t)] else []) tools)) (distinct_on_tool srt))"

text \<open>
  The resolution as the specification words it, for comparison: of the records of a
  key, the one with the greatest timestamp, the later inserted one on equal timestamps.
\<close>

definition spec_resolveActive :: "drive_status_row list \<Rightarrow> nat \<Rightarrow> drive_status_row option" where
  "spec_resolveActive rows k =
     foldl (\<lambda>acc r. if ds_tool_id r = k
                        \<and> (case acc of None \<Rightarrow> True | Some a \<Rightarrow> ds_timestamp a \<le> ds_timestamp r)
                     then Some r else acc) None rows"

section \<open>Well-formed stores and the specification's reading of the ledger\<close>

text \<open>
  The primary keys of the two tables are unique and below the counters from which new
  identifiers are taken.
\<close>

definition keys_ok :: "db \<Rightarrow> bool" where
  "keys_ok d =
     (distinct (map inventory_id (centralized_inventory d))
      \<and> distinct (map tool_id (centralized_inventory d))
      \<and> distinct (map history_id (tool_maintenance_history d))
      \<and> list_all (\<lambda>r. inventory_id r < next_inventory_id d \<and> tool_id r < next_tool_id d)
           (centralized_inventory d)
      \<and> list_all (\<lambda>h. history_id h < next_history_id d) (tool_maintenance_history d))"

text \<open>
  The prior life as the specification words it, for comparison: the life recorded at
  the most recent non-deleted ledger event of the tool (the later inserted one on equal
  timestamps), 0 when there is none.
\<close>

definition spec_most_recent_event :: "history_row list \<Rightarrow> nat \<Rightarrow> history_row option" where
  "spec_most_recent_event ledger tid =
     foldl (\<lambda>acc h. if tmh_tool_id h = tid \<and> \<not> is_deleted h
                        \<and> (case acc of None \<Rightarrow> True
                            | Some a \<Rightarrow> tmh_timestamp a \<le> tmh_timestamp h)
                     then Some h else acc) None ledger"

definition spec_prior_life :: "history_row list \<Rightarrow> nat \<Rightarrow> real" where
  "spec_prior_life ledger tid =
     (case spec_most_recent_event ledger tid of None \<Rightarrow> 0 | Some e \<Rightarrow> tool_life_at_event e)"

text \<open>The field comparisons of step 2 of \<open>updateInventoryTool\<close>, all finding no change.\<close>

definition no_field_differs :: "update_request \<Rightarrow> inventory_row \<Rightarrow> bool" where
  "no_field_differs req cur =
     ((case upd_status req of None \<Rightarrow> True | Some v \<Rightarrow> v = status cur)
      \<and> (case upd_current_factory_id req of
            None \<Rightarrow> True | Some v \<Rightarrow> v = current_factory_id cur)
      \<and> (case upd_format req of
            None \<Rightarrow> True | Some v \<Rightarrow> normalize_upper (Some v) = upper_or_null (format cur))
      \<and> (case upd_tool_name req of None \<Rightarrow> True | Some v \<Rightarrow> v = tool_name cur)
      \<and> (case upd_material_id req of None \<Rightarrow> True | Some v \<Rightarrow> v = material_id cur)
      \<and> (case upd_batch_id req of None \<Rightarrow> True | Some v \<Rightarrow> v = batch_id cur)
      \<and> (case upd_type req of None \<Rightarrow> True | Some v \<Rightarrow> v = type cur)
      \<and> (case upd_manufacturer req of None \<Rightarrow> True | Some v \<Rightarrow> Some v = manufacturer cur)
      \<and> (case upd_web_width req of
            None \<Rightarrow> True
          | Some v \<Rightarrow> normalize_upper (Some v) = upper_or_null (web_width cur)))"

text \<open>
  The relation between a row before and after an update that lets a field change only
  when the request provides it with a value that the comparison of step 2 finds
  different from the current one, and that keeps the identifiers, the counters and the
  life values.
\<close>

definition only_differing_fields :: "update_request \<Rightarrow> inventory_row \<Rightarrow> inventory_row \<Rightarrow> bool" where
  "only_differing_fields req r r' =
     ((status r' \<noteq> status r \<longrightarrow> upd_status req = Some (status r'))
      \<and> (current_factory_id r' \<noteq> current_factory_id r
           \<longrightarrow> upd_current_factory_id req = Some (current_factory_id r'))
      \<and> (format r' \<noteq> format r
           \<longrightarrow> (case upd_format req of
                  None \<Rightarrow> False
                | Some v \<Rightarrow> normalize_upper (Some v) \<noteq> upper_or_null (format r)
                            \<and> format r' = normalize_upper (Some v)))
      \<and> (tool_name r' \<noteq> tool_name r
           \<longrightarrow> (case upd_tool_name req of
                  None \<Rightarrow> False | Some v \<Rightarrow> v \<noteq> tool_name r \<and> tool_name r' = trim v))
      \<and> (material_id r' \<noteq> material_id r
           \<longrightarrow> (case upd_material_id req of
                  None \<Rightarrow> False | Some v \<Rightarrow> v \<noteq> material_id r \<and> material_id r' = trim v))
      \<and> (batch_id r' \<noteq> batch_id r
           \<longrightarrow> (case upd_batch_id req of
                  None \<Rightarrow> False | Some v \<Rightarrow> v \<noteq> batch_id r \<and> batch_id r' = trim v))
      \<and> (type r' \<noteq> type r
           \<longrightarrow> (case upd_type req of
                  None \<Rightarrow> False | Some v \<Rightarrow> v \<noteq> type r \<and> type r' = trim v))
      \<and> (manufacturer r' \<noteq> manufacturer r
           \<longrightarrow> (case upd_manufacturer req of
                  None \<Rightarrow> False
                | Some v \<Rightarrow> Some v \<noteq> manufacturer r \<and> manufacturer r' = Some (trim v)))
      \<and> (web_width r' \<noteq> web_width r
           \<longrightarrow> (case upd_web_width req of
                  None \<Rightarrow> False
                | Some v \<Rightarrow> normalize_upper (Some v) \<noteq> upper_or_null (web_width r)
                            \<and> web_width r' = normalize_upper (Some v)))
      \<and> inventory_id r' = inventory_id r \<and> tool_id r' = tool_id r
      \<and> number_of_regrinding r' = number_of_regrinding r
      \<and> number_of_resegmentation r' = number_of_resegmentation r
      \<and> current_tool_life r' = current_tool_life r
      \<and> baseline_tool_life r' = baseline_tool_life r
      \<and> total_hlp r' = total_hlp r)"

text \<open>The store before any tool is registered.\<close>

definition empty_db :: "nat list \<Rightarrow> db" where
  "empty_db facs =
     \<lparr>centralized_inventory = [], tool_maintenance_history = [],
      daily_tool_summary = Map.empty, factories = facs,
      next_inventory_id = 1, next_tool_id = 1, next_history_id = 1\<rparr>"

section \<open>The projection against the ledger\<close>

text \<open>
  The quantities the projection of a tool is compared with: the number of non-deleted
  ledger events of a type, and the sum of life_consumed over its non-deleted events.
\<close>

definition count_events :: "history_row list \<Rightarrow> nat \<Rightarrow> string \<Rightarrow> int" where
  "count_events ledger tid ety =
     int (length (filter (\<lambda>h. tmh_tool_id h = tid \<and> event_type h = ety \<and> \<not> is_deleted h)
                    ledger))"

definition ledger_life :: "history_row list \<Rightarrow> nat \<Rightarrow> real" where
  "ledger_life ledger tid =
     sum_list (map life_consumed
                 (filter (\<lambda>h. tmh_tool_id h = tid \<and> \<not> is_deleted h) ledger))"

definition counters_match :: "db \<Rightarrow> bool" where
  "counters_match d =
     list_all (\<lambda>r. number_of_regrinding r
                       = count_events (tool_maintenance_history d) (tool_id r) ''regrinding''
                   \<and> number_of_resegmentation r
                       = count_events (tool_maintenance_history d) (tool_id r)
                           ''resegmentation'')
       (centralized_inventory d)"

definition life_matches :: "db \<Rightarrow> bool" where
  "life_matches d =
     list_all (\<lambda>r. current_tool_life r
                       = baseline_tool_life r
                         + ledger_life (tool_maintenance_history d) (tool_id r))
       (centralized_inventory d)"

text \<open>
  Every ledger entry is a regrinding or a resegmentation, is not soft-deleted and
  belongs to a tool identifier that has been handed out.
\<close>

definition ledger_ok :: "db \<Rightarrow> bool" where
  "ledger_ok d =
     list_all (\<lambda>h. event_type h \<in> set [''regrinding'', ''resegmentation'']
                   \<and> \<not> is_deleted h \<and> tmh_tool_id h < next_tool_id d)
       (tool_maintenance_history d)"

text \<open>
  The stores reached from an empty one by tool creation, historical import, tool update
  (which applies a maintenance event on a status change to a sentinel) and reversal.
  Creation is taken without preset counters, and imported lifecycle events with the
  event types the ledger knows.
\<close>

definition known_event_types :: "tool_import \<Rightarrow> bool" where
  "known_event_types t =
     list_all (\<lambda>e. ev_event_type e \<in> set [''initial'', ''regrinding'', ''resegmentation''])
       (imp_lifecycle_events t)"

definition no_preset_counters :: "create_request \<Rightarrow> bool" where
  "no_preset_counters req =
     ((crt_number_of_regrinding req = None \<or> crt_number_of_regrinding req = Some 0)
      \<and> (crt_number_of_resegmentation req = None
          \<or> crt_number_of_resegmentation req = Some 0))"

inductive reachable :: "db \<Rightarrow> bool" where
  start: "reachable (empty_db facs)"
| created: "reachable d \<Longrightarrow> no_preset_counters req
              \<Longrightarrow> reachable (snd (createInventoryTool u req d))"
| imported: "reachable d \<Longrightarrow> list_all known_event_types tools
              \<Longrightarrow> reachable (snd (createHistoricalTools u now tools d))"
| updated: "reachable d \<Longrightarrow> reachable (snd (updateInventoryTool u now i req d))"
| reversed: "reachable d \<Longrightarrow> reachable (snd (deleteMaintenanceHistory historyId d))"

section \<open>Sample data\<close>

definition unit_admin :: user where
  "unit_admin = \<lparr>employee_id = ''E100'', role = ''UnitAdmin'', factory_id = 1\<rparr>"

definition sample_events :: "lifecycle_event list" where
  "sample_events =
     [\<lparr>ev_event_type = ''initial'', ev_life_value = None, ev_date = Some 86400000,
       ev_sequence = None\<rparr>,
      \<lparr>ev_event_type = ''regrinding'', ev_life_value = Some 100, ev_date = Some 172800000,
       ev_sequence = Some 1\<rparr>,
      \<lparr>ev_event_type = ''resegmentation'', ev_life_value = Some 150,
       ev_date = Some 259200000, ev_sequence = Some 1\<rparr>]"

definition sample_tool :: "string \<Rightarrow> string \<Rightarrow> real option \<Rightarrow> tool_import" where
  "sample_tool nam ty life =
     \<lparr>imp_material_id = ''4711'', imp_batch_id = ''B1'', imp_tool_name = nam,
      imp_current_factory_id = None, imp_type = ty, imp_format = Some ''a4'',
      imp_status = None, imp_current_tool_life = life,
      imp_lifecycle_events = sample_events\<rparr>"

definition sample_batch :: "tool_import list" where
  "sample_batch =
     [sample_tool ''T1'' ''cutting'' (Some 150),
      sample_tool [] ''cutting'' (Some 150),
      sample_tool ''T3'' ''creasing'' (Some 150),
      sample_tool ''T4'' ''drilling'' (Some 150),
      sample_tool ''T5'' ''embossing'' (Some 150)]"

definition no_update :: update_request where
  "no_update = \<lparr>upd_status = None, upd_current_factory_id = None, upd_format = None,
      upd_life_consumed = None, upd_tool_name = None, upd_material_id = None,
      upd_batch_id = None, upd_type = None, upd_manufacturer = None,
      upd_web_width = None\<rparr>"

definition send_to :: "string \<Rightarrow> real \<Rightarrow> update_request" where
  "send_to what consumed =
     no_update\<lparr>upd_status := Some (''sent to madern for '' @ what),
               upd_life_consumed := Some consumed\<rparr>"

text \<open>
  A tool imported with the sample events and no current_tool_life, and the same tool
  after a regrinding that consumed 10.
\<close>

definition imported_db :: db where
  "imported_db =
     snd (createHistoricalTools unit_admin 0 [sample_tool ''T1'' ''cutting'' None]
            (empty_db [1]))"

definition serviced_db :: db where
  "serviced_db =
     snd (updateInventoryTool unit_admin 345600000 1 (send_to ''regrinding'' 10) imported_db)"

text \<open>A tool imported with one event that is neither a regrinding nor a resegmentation.\<close>

definition inspected_db :: db where
  "inspected_db =
     snd (createHistoricalTools unit_admin 0
            [(sample_tool ''T1'' ''cutting'' (Some 40))
               \<lparr>imp_lifecycle_events :=
                  [\<lparr>ev_event_type = ''inspection'', ev_life_value = Some 40,
                    ev_date = Some 172800000, ev_sequence = Some 1\<rparr>]\<rparr>]
            (empty_db [1]))"

text \<open>A status stream of one tool, one with two records at the same instant, and the
  tables joined with them.\<close>

definition ds_rec :: "nat \<Rightarrow> string \<Rightarrow> drive_status_row" where
  "ds_rec ts st = \<lparr>ds_tool_id = 7, ds_machine_id = 2, ds_status = st, ds_timestamp = ts\<rparr>"

definition sample_stream :: "drive_status_row list" where
  "sample_stream = [ds_rec 1 ''in_drive'', ds_rec 5 ''removed'', ds_rec 3 ''in_drive'']"

definition tied_stream :: "drive_status_row list" where
  "tied_stream = [ds_rec 5 ''in_drive'', ds_rec 5 ''removed'']"

definition sample_tools :: "tools_row list" where
  "sample_tools = [\<lparr>t_tool_id = 7, t_tool_name = ''Cutter A'', t_tool_type = ''Cutting''\<rparr>]"

definition sample_machines :: "machines_row list" where
  "sample_machines = [\<lparr>m_machine_id = 2, m_machine_name = ''M2'', m_factory_id = 1\<rparr>]"

definition sample_stream_sorted :: "drive_status_row list" where
  "sample_stream_sorted = [ds_rec 5 ''removed'', ds_rec 3 ''in_drive'', ds_rec 1 ''in_drive'']"

section \<open>Theorems\<close>

text \<open>
  C7. The rollup merge is additive: a key without a row is inserted with the given
  deltas, a key with a row has the deltas added to its accumulators, and two calls
  with revolutions 5 and HLP 3 on the same fresh key (tool 7, machine 2) leave 10 and 6.
\<close>

theorem C7_merge_additive:
  "(m (t, mc, d) = None \<longrightarrow>
      dailySummaryInsert t mc d revs hlp m (t, mc, d)
        = Some \<lparr>total_ts_revolutions = revs, total_hlp_run = hlp\<rparr>)
   \<and> (\<forall>row. m (t, mc, d) = Some row \<longrightarrow>
      dailySummaryInsert t mc d revs hlp m (t, mc, d)
        = Some \<lparr>total_ts_revolutions = total_ts_revolutions row + revs,
                 total_hlp_run = total_hlp_run row + hlp\<rparr>)
   \<and> (\<forall>k. k \<noteq> (t, mc, d) \<longrightarrow> dailySummaryInsert t mc d revs hlp m k = m k)
   \<and> (m (7, 2, day) = None \<longrightarrow>
      dailySummaryInsert 7 2 day 5 3 (dailySummaryInsert 7 2 day 5 3 m) (7, 2, day)
        = Some \<lparr>total_ts_revolutions = 10, total_hlp_run = 6\<rparr>)"
  by (auto simp: dailySummaryInsert_def split: option.splits)

theorem C7_merge_additive_witness:
  "dailySummaryInsert 7 2 19732 5 3 Map.empty (7, 2, 19732)
     = Some \<lparr>total_ts_revolutions = 5, total_hlp_run = 3\<rparr>
   \<and> dailySummaryInsert 7 2 19732 5 3
        (dailySummaryInsert 7 2 19732 5 3 Map.empty) (7, 2, 19732)
     = Some \<lparr>total_ts_revolutions = 10, total_hlp_run = 6\<rparr>
   \<and> dailySummaryInsert 7 2 19732 5 3
        (dailySummaryInsert 7 2 19732 5 3 Map.empty) (8, 2, 19732) = None"
  using C7_merge_additive [of Map.empty 7 2 19732 5 3 19732]
  by (simp add: dailySummaryInsert_def)

subsection \<open>Historical import\<close>

lemma insert_history_frame:
  "factories (snd (insert_history tid ety la c h q ts d)) = factories d"
  "centralized_inventory (snd (insert_history tid ety la c h q ts d)) = centralized_inventory d"
  "next_tool_id (snd (insert_history tid ety la c h q ts d)) = next_tool_id d"
  "next_inventory_id (snd (insert_history tid ety la c h q ts d)) = next_inventory_id d"
  by (simp_all add: insert_history_def Let_def)

lemma replay_events_frame:
  "factories (snd (replay_events tid now es p n d)) = factories d \<and>
   centralized_inventory (snd (replay_events tid now es p n d)) = centralized_inventory d \<and>
   next_tool_id (snd (replay_events tid now es p n d)) = next_tool_id d \<and>
   next_inventory_id (snd (replay_events tid now es p n d)) = next_inventory_id d"
  by (induction es arbitrary: p n d) (simp_all add: Let_def insert_history_frame)

lemma replay_events_count_indep:
  "snd (replay_events tid now es p n d) = snd (replay_events tid now es p n' d)"
  by (induction es arbitrary: p n n' d) (simp_all add: Let_def)

lemma import_tool_invalid:
  "\<not> valid_import u (factories d) t \<Longrightarrow>
     snd (import_tool u now i t (r, d)) = d \<and>
     success (fst (import_tool u now i t (r, d))) = success r \<and>
     length (errors (fst (import_tool u now i t (r, d)))) = Suc (length (errors r))"
  by (auto simp: valid_import_def import_tool_def Let_def split: sum.splits)

lemma import_tool_valid:
  "valid_import u (factories d) t \<Longrightarrow>
     snd (import_tool u now i t (r, d)) = snd (import_tool u now j t (r', d)) \<and>
     factories (snd (import_tool u now i t (r, d))) = factories d \<and>
     errors (fst (import_tool u now i t (r, d))) = errors r \<and>
     length (success (fst (import_tool u now i t (r, d)))) = Suc (length (success r))"
  by (auto simp: valid_import_def import_tool_def Let_def replay_events_frame
        insert_historical_tool_def case_prod_beta split: sum.splits)

lemma import_loop_db:
  "snd (import_loop u now i ts (r, d)) =
     snd (import_loop u now j (filter (valid_import u (factories d)) ts) (r', d))"
proof (induction ts arbitrary: i j r r' d)
  case Nil
  show ?case by simp
next
  case (Cons t ts)
  show ?case
  proof (cases "valid_import u (factories d) t")
    case True
    obtain r1 d1 where s1: "import_tool u now i t (r, d) = (r1, d1)" by (cases "import_tool u now i t (r, d)")
    obtain r2 d2 where s2: "import_tool u now j t (r', d) = (r2, d2)" by (cases "import_tool u now j t (r', d)")
    from import_tool_valid [OF True, of now i r j r'] s1 s2
    have eq: "d1 = d2" and fac: "factories d1 = factories d" by auto
    show ?thesis using True s1 s2 eq fac Cons.IH [of "Suc i" r1 d1 "Suc j" r2] by simp
  next
    case False
    obtain r1 d1 where s1: "import_tool u now i t (r, d) = (r1, d1)" by (cases "import_tool u now i t (r, d)")
    from import_tool_invalid [OF False, of now i r] s1 have "d1 = d" by simp
    then show ?thesis using False s1 Cons.IH [of "Suc i" r1 d j r'] by simp
  qed
qed

lemma import_loop_counts:
  "length (success (fst (import_loop u now i ts (r, d))))
      = length (success r) + length (filter (valid_import u (factories d)) ts) \<and>
   length (errors (fst (import_loop u now i ts (r, d))))
      = length (errors r) + length (filter (\<lambda>t. \<not> valid_import u (factories d) t) ts)"
proof (induction ts arbitrary: i r d)
  case Nil
  show ?case by simp
next
  case (Cons t ts)
  obtain r1 d1 where s1: "import_tool u now i t (r, d) = (r1, d1)" by (cases "import_tool u now i t (r, d)")
  show ?case
  proof (cases "valid_import u (factories d) t")
    case True
    from import_tool_valid [OF True, of now i r i r] s1
    have "factories d1 = factories d" "errors r1 = errors r" "length (success r1) = Suc (length (success r))"
      by simp_all
    then show ?thesis using True s1 Cons.IH [of "Suc i" r1 d1] by simp
  next
    case False
    from import_tool_invalid [OF False, of now i r] s1
    have "d1 = d" "success r1 = success r" "length (errors r1) = Suc (length (errors r))" by simp_all
    then show ?thesis using False s1 Cons.IH [of "Suc i" r1 d1] by simp
  qed
qed


lemma import_tool_rows:
  "map (\<lambda>x. (material_id x, batch_id x, tool_name x))
      (centralized_inventory (snd (import_tool u now i t (r, d))))
   = map (\<lambda>x. (material_id x, batch_id x, tool_name x)) (centralized_inventory d)
       @ (if valid_import u (factories d) t then [tool_label t] else [])"
  by (auto simp: valid_import_def import_tool_def Let_def replay_events_frame tool_label_def
        insert_historical_tool_def case_prod_beta split: sum.splits)

lemma import_loop_rows:
  "map (\<lambda>x. (material_id x, batch_id x, tool_name x))
      (centralized_inventory (snd (import_loop u now i ts (r, d))))
   = map (\<lambda>x. (material_id x, batch_id x, tool_name x)) (centralized_inventory d)
       @ map tool_label (filter (valid_import u (factories d)) ts)"
proof (induction ts arbitrary: i r d)
  case Nil
  show ?case by simp
next
  case (Cons t ts)
  obtain r1 d1 where s1: "import_tool u now i t (r, d) = (r1, d1)"
    by (cases "import_tool u now i t (r, d)")
  have fac: "factories d1 = factories d"
    using import_tool_valid [of u d t now i r i r] import_tool_invalid [of u d t now i r] s1
    by (cases "valid_import u (factories d) t") auto
  have rows: "map (\<lambda>x. (material_id x, batch_id x, tool_name x)) (centralized_inventory d1)
      = map (\<lambda>x. (material_id x, batch_id x, tool_name x)) (centralized_inventory d)
       @ (if valid_import u (factories d) t then [tool_label t] else [])"
    using import_tool_rows [of u now i t r d] s1 by simp
  show ?case using s1 fac rows Cons.IH [of "Suc i" r1 d1] by simp
qed

text \<open>
  C8 (as amended). A non-empty batch never fails as a whole: every tool is checked and
  processed on its own, the report has one success per valid tool and one failure per
  invalid tool, and the stored state is the one reached by importing the valid tools
  alone, so each valid tool has its row whatever the other tools are. With 3 valid and
  2 invalid tools that is 3 successes and 2 failures. An empty batch is rejected as a
  whole.
\<close>

theorem C8_import_partial_success:
  assumes "tools \<noteq> []"
  shows "\<exists>code results.
           fst (createHistoricalTools u now tools d) = ImportCompleted code results
         \<and> length (success results) = length (filter (valid_import u (factories d)) tools)
         \<and> length (errors results)
             = length (filter (\<lambda>t. \<not> valid_import u (factories d) t) tools)
         \<and> snd (createHistoricalTools u now tools d)
             = snd (createHistoricalTools u now (filter (valid_import u (factories d)) tools) d)
         \<and> map (\<lambda>x. (material_id x, batch_id x, tool_name x))
               (centralized_inventory (snd (createHistoricalTools u now tools d)))
             = map (\<lambda>x. (material_id x, batch_id x, tool_name x)) (centralized_inventory d)
                 @ map tool_label (filter (valid_import u (factories d)) tools)"
proof -
  let ?r0 = "\<lparr>success = [], errors = []\<rparr>"
  let ?v = "filter (valid_import u (factories d)) tools"
  obtain res d' where run: "import_loop u now 0 tools (?r0, d) = (res, d')"
    by (cases "import_loop u now 0 tools (?r0, d)")
  have resp: "createHistoricalTools u now tools d = (ImportCompleted (responseCode res) res, d')"
    using assms run by (simp add: createHistoricalTools_def)
  have cnt: "length (success res) = length ?v"
       "length (errors res) = length (filter (\<lambda>t. \<not> valid_import u (factories d) t) tools)"
    using import_loop_counts [of u now 0 tools ?r0 d] run by simp_all
  have dbv: "d' = snd (import_loop u now 0 ?v (?r0, d))"
    using import_loop_db [of u now 0 tools ?r0 d 0 ?r0] run by simp
  have "snd (createHistoricalTools u now ?v d) = snd (import_loop u now 0 ?v (?r0, d))"
    by (cases "?v = []") (simp_all add: createHistoricalTools_def case_prod_beta)
  then have same: "d' = snd (createHistoricalTools u now ?v d)"
    using dbv by simp
  have rows: "map (\<lambda>x. (material_id x, batch_id x, tool_name x)) (centralized_inventory d')
      = map (\<lambda>x. (material_id x, batch_id x, tool_name x)) (centralized_inventory d)
          @ map tool_label ?v"
    using import_loop_rows [of u now 0 tools ?r0 d] run by simp
  show ?thesis using resp cnt same rows by simp
qed

text \<open>
  C4 (as amended). Importing a valid tool whose lifecycle events are an initial event, a
  regrinding at life 100 and a resegmentation at life 150 creates one row whose
  current_tool_life and baseline_tool_life are both the current_tool_life supplied in
  the request (0 when none is supplied, 150 when 150 is supplied), with one regrinding
  and one resegmentation counted, and exactly two ledger entries, with life_consumed 100
  and 50.
\<close>

theorem C4_import_projection:
  assumes "validate_import u (factories d) t = Inr f"
    and "imp_lifecycle_events t = [e0, e1, e2]"
    and "ev_event_type e0 = ''initial''"
    and "ev_event_type e1 = ''regrinding''" and "ev_life_value e1 = Some 100"
    and "ev_event_type e2 = ''resegmentation''" and "ev_life_value e2 = Some 150"
  shows "\<exists>row h1 h2.
      centralized_inventory (snd (createHistoricalTools u now [t] d))
        = centralized_inventory d @ [row]
    \<and> current_tool_life row = parseFloat_or_zero (imp_current_tool_life t)
    \<and> baseline_tool_life row = current_tool_life row
    \<and> (imp_current_tool_life t = Some 150 \<longrightarrow> current_tool_life row = 150)
    \<and> number_of_regrinding row = 1 \<and> number_of_resegmentation row = 1
    \<and> tool_maintenance_history (snd (createHistoricalTools u now [t] d))
        = tool_maintenance_history d @ [h1, h2]
    \<and> tmh_tool_id h1 = tool_id row \<and> tmh_tool_id h2 = tool_id row
    \<and> event_type h1 = ''regrinding'' \<and> event_type h2 = ''resegmentation''
    \<and> tool_life_at_event h1 = 100 \<and> tool_life_at_event h2 = 150
    \<and> life_consumed h1 = 100 \<and> life_consumed h2 = 50"
  using assms
  by (simp add: createHistoricalTools_def import_tool_def insert_historical_tool_def
        insert_history_def Let_def regrindCount_def resegCount_def parseFloat_or_zero_def)

lemmas validate_eval = validate_import_def validate_tool_def js_le_zero_def trim_def
  is_js_space_def radix_is_zero_def unsigned_is_zero_def is_digit_def is_exponent_def
  is_hex_digit_def

theorem C4_import_projection_witness:
  "\<exists>row h1 h2.
      centralized_inventory
        (snd (createHistoricalTools unit_admin 0 [sample_tool ''T1'' ''cutting'' (Some 150)]
               (empty_db [1]))) = [row]
    \<and> current_tool_life row = 150 \<and> baseline_tool_life row = 150
    \<and> number_of_regrinding row = 1 \<and> number_of_resegmentation row = 1
    \<and> tool_maintenance_history
        (snd (createHistoricalTools unit_admin 0 [sample_tool ''T1'' ''cutting'' (Some 150)]
               (empty_db [1]))) = [h1, h2]
    \<and> life_consumed h1 = 100 \<and> life_consumed h2 = 50"
proof -
  let ?t = "sample_tool ''T1'' ''cutting'' (Some 150)"
  let ?e0 = "\<lparr>ev_event_type = ''initial'', ev_life_value = None, ev_date = Some 86400000,
       ev_sequence = None\<rparr>"
  let ?e1 = "\<lparr>ev_event_type = ''regrinding'', ev_life_value = Some 100, ev_date = Some 172800000,
       ev_sequence = Some 1\<rparr>"
  let ?e2 = "\<lparr>ev_event_type = ''resegmentation'', ev_life_value = Some 150,
       ev_date = Some 259200000, ev_sequence = Some 1\<rparr>"
  have v: "validate_import unit_admin (factories (empty_db [1])) ?t = Inr 1"
    by (simp add: validate_eval unit_admin_def sample_tool_def empty_db_def)
  have ev: "imp_lifecycle_events ?t = [?e0, ?e1, ?e2]"
    by (simp add: sample_tool_def sample_events_def)
  have ci: "centralized_inventory (empty_db [1]) = []"
       "tool_maintenance_history (empty_db [1]) = []"
    by (simp_all add: empty_db_def)
  have pf: "imp_current_tool_life ?t = Some 150"
    by (simp add: sample_tool_def)
  from C4_import_projection [OF v ev, of 0]
  have "\<exists>row h1 h2.
      centralized_inventory (snd (createHistoricalTools unit_admin 0 [?t] (empty_db [1])))
        = [row]
    \<and> current_tool_life row = 150 \<and> baseline_tool_life row = current_tool_life row
    \<and> number_of_regrinding row = 1 \<and> number_of_resegmentation row = 1
    \<and> tool_maintenance_history (snd (createHistoricalTools unit_admin 0 [?t] (empty_db [1])))
        = [h1, h2]
    \<and> life_consumed h1 = 100 \<and> life_consumed h2 = 50"
    unfolding ci pf parseFloat_or_zero_def by fastforce
  then show ?thesis by fastforce
qed

theorem C4_import_life_counterexample:
  "map ev_life_value (imp_lifecycle_events (sample_tool ''T1'' ''cutting'' None))
     = [None, Some 100, Some 150]
   \<and> map current_tool_life
       (centralized_inventory
         (snd (createHistoricalTools unit_admin 0 [sample_tool ''T1'' ''cutting'' None]
                (empty_db [1])))) = [0]"
  by (simp add: createHistoricalTools_def import_tool_def insert_historical_tool_def
        Let_def parseFloat_or_zero_def validate_eval unit_admin_def
        insert_history_frame case_prod_beta empty_db_def sample_tool_def sample_events_def)

theorem C8_empty_batch_counterexample:
  "createHistoricalTools unit_admin 0 [] (empty_db [1]) = (BadRequest, empty_db [1])"
  by (simp add: createHistoricalTools_def)

lemma sample_batch_valid:
  "filter (valid_import unit_admin (factories (empty_db [1]))) sample_batch
     = [sample_tool ''T1'' ''cutting'' (Some 150), sample_tool ''T3'' ''creasing'' (Some 150),
        sample_tool ''T5'' ''embossing'' (Some 150)]"
  "filter (\<lambda>t. \<not> valid_import unit_admin (factories (empty_db [1])) t) sample_batch
     = [sample_tool [] ''cutting'' (Some 150), sample_tool ''T4'' ''drilling'' (Some 150)]"
  by (simp_all add: sample_batch_def valid_import_def validate_eval unit_admin_def
        sample_tool_def empty_db_def)

theorem C8_import_partial_success_witness:
  "sample_batch \<noteq> [] \<and>
   (\<exists>code results.
        fst (createHistoricalTools unit_admin 0 sample_batch (empty_db [1]))
          = ImportCompleted code results
      \<and> length (success results) = 3 \<and> length (errors results) = 2
      \<and> map (\<lambda>x. (material_id x, batch_id x, tool_name x))
           (centralized_inventory
              (snd (createHistoricalTools unit_admin 0 sample_batch (empty_db [1]))))
          = [(''4711'', ''B1'', ''T1''), (''4711'', ''B1'', ''T3''), (''4711'', ''B1'', ''T5'')])"
proof -
  have ne: "sample_batch \<noteq> []" by (simp add: sample_batch_def)
  have ci: "centralized_inventory (empty_db [1]) = []" by (simp add: empty_db_def)
  have lb: "map tool_label [sample_tool ''T1'' ''cutting'' (Some 150),
                sample_tool ''T3'' ''creasing'' (Some 150),
                sample_tool ''T5'' ''embossing'' (Some 150)]
            = [(''4711'', ''B1'', ''T1''), (''4711'', ''B1'', ''T3''), (''4711'', ''B1'', ''T5'')]"
    by (simp add: tool_label_def sample_tool_def)
  from C8_import_partial_success [OF ne, of unit_admin 0 "empty_db [1]"]
  have "\<exists>code results.
        fst (createHistoricalTools unit_admin 0 sample_batch (empty_db [1]))
          = ImportCompleted code results
      \<and> length (success results) = 3 \<and> length (errors results) = 2
      \<and> map (\<lambda>x. (material_id x, batch_id x, tool_name x))
           (centralized_inventory
              (snd (createHistoricalTools unit_admin 0 sample_batch (empty_db [1]))))
          = [(''4711'', ''B1'', ''T1''), (''4711'', ''B1'', ''T3''), (''4711'', ''B1'', ''T5'')]"
    unfolding sample_batch_valid ci lb by fastforce
  then show ?thesis using ne by simp
qed

subsection \<open>Maintenance events and their reversal\<close>

lemmas check_step_defs = check_current_factory_id_def check_format_def check_tool_name_def
  check_material_id_def check_batch_id_def check_type_def check_manufacturer_def
  check_web_width_def

lemma check_steps_frame:
  "fu_status (fst (check_current_factory_id req c fh)) = fu_status (fst fh)"
  "fu_number_of_regrinding (fst (check_current_factory_id req c fh)) = fu_number_of_regrinding (fst fh)"
  "fu_number_of_resegmentation (fst (check_current_factory_id req c fh)) = fu_number_of_resegmentation (fst fh)"
  "fu_current_tool_life (fst (check_current_factory_id req c fh)) = fu_current_tool_life (fst fh)"
  "fu_status (fst (check_format req c fh)) = fu_status (fst fh)"
  "fu_number_of_regrinding (fst (check_format req c fh)) = fu_number_of_regrinding (fst fh)"
  "fu_number_of_resegmentation (fst (check_format req c fh)) = fu_number_of_resegmentation (fst fh)"
  "fu_current_tool_life (fst (check_format req c fh)) = fu_current_tool_life (fst fh)"
  "fu_status (fst (check_tool_name req c fh)) = fu_status (fst fh)"
  "fu_number_of_regrinding (fst (check_tool_name req c fh)) = fu_number_of_regrinding (fst fh)"
  "fu_number_of_resegmentation (fst (check_tool_name req c fh)) = fu_number_of_resegmentation (fst fh)"
  "fu_current_tool_life (fst (check_tool_name req c fh)) = fu_current_tool_life (fst fh)"
  "fu_status (fst (check_material_id req c fh)) = fu_status (fst fh)"
  "fu_number_of_regrinding (fst (check_material_id req c fh)) = fu_number_of_regrinding (fst fh)"
  "fu_number_of_resegmentation (fst (check_material_id req c fh)) = fu_number_of_resegmentation (fst fh)"
  "fu_current_tool_life (fst (check_material_id req c fh)) = fu_current_tool_life (fst fh)"
  "fu_status (fst (check_batch_id req c fh)) = fu_status (fst fh)"
  "fu_number_of_regrinding (fst (check_batch_id req c fh)) = fu_number_of_regrinding (fst fh)"
  "fu_number_of_resegmentation (fst (check_batch_id req c fh)) = fu_number_of_resegmentation (fst fh)"
  "fu_current_tool_life (fst (check_batch_id req c fh)) = fu_current_tool_life (fst fh)"
  "fu_status (fst (check_type req c fh)) = fu_status (fst fh)"
  "fu_number_of_regrinding (fst (check_type req c fh)) = fu_number_of_regrinding (fst fh)"
  "fu_number_of_resegmentation (fst (check_type req c fh)) = fu_number_of_resegmentation (fst fh)"
  "fu_current_tool_life (fst (check_type req c fh)) = fu_current_tool_life (fst fh)"
  "fu_status (fst (check_manufacturer req c fh)) = fu_status (fst fh)"
  "fu_number_of_regrinding (fst (check_manufacturer req c fh)) = fu_number_of_regrinding (fst fh)"
  "fu_number_of_resegmentation (fst (check_manufacturer req c fh)) = fu_number_of_resegmentation (fst fh)"
  "fu_current_tool_life (fst (check_manufacturer req c fh)) = fu_current_tool_life (fst fh)"
  "fu_status (fst (check_web_width req c fh)) = fu_status (fst fh)"
  "fu_number_of_regrinding (fst (check_web_width req c fh)) = fu_number_of_regrinding (fst fh)"
  "fu_number_of_resegmentation (fst (check_web_width req c fh)) = fu_number_of_resegmentation (fst fh)"
  "fu_current_tool_life (fst (check_web_width req c fh)) = fu_current_tool_life (fst fh)"
  by (simp_all add: check_step_defs Let_def split: option.splits)

lemma check_fields_frame:
  "fu_status (fst (check_fields req c fh)) = fu_status (fst fh)"
  "fu_number_of_regrinding (fst (check_fields req c fh)) = fu_number_of_regrinding (fst fh)"
  "fu_number_of_resegmentation (fst (check_fields req c fh)) = fu_number_of_resegmentation (fst fh)"
  "fu_current_tool_life (fst (check_fields req c fh)) = fu_current_tool_life (fst fh)"
  by (simp_all add: check_fields_def check_steps_frame)

lemma check_steps_mono:
  "snd fh \<Longrightarrow> snd (check_current_factory_id req c fh)"
  "snd fh \<Longrightarrow> snd (check_format req c fh)"
  "snd fh \<Longrightarrow> snd (check_tool_name req c fh)"
  "snd fh \<Longrightarrow> snd (check_material_id req c fh)"
  "snd fh \<Longrightarrow> snd (check_batch_id req c fh)"
  "snd fh \<Longrightarrow> snd (check_type req c fh)"
  "snd fh \<Longrightarrow> snd (check_manufacturer req c fh)"
  "snd fh \<Longrightarrow> snd (check_web_width req c fh)"
  by (simp_all add: check_step_defs Let_def split: option.splits)

lemma check_fields_mono: "snd fh \<Longrightarrow> snd (check_fields req c fh)"
  by (simp add: check_fields_def check_steps_mono)

text \<open>What an update that records a maintenance event does.\<close>

lemma update_event_shape:
  assumes "updateInventoryTool u now i req d = (Updated t1 (Some h), d1)"
  shows "\<exists>cur rest f0 ev f.
      filter (\<lambda>r. inventory_id r = i) (centralized_inventory d) = cur # rest
    \<and> check_status req cur = (f0, True, Some ev)
    \<and> f = fst (check_fields req cur (f0, True))
    \<and> t1 = apply_fields f cur
    \<and> h = \<lparr>history_id = next_history_id d, tmh_tool_id = tool_id cur,
            event_type = me_type ev, tool_life_at_event = current_tool_life t1,
            life_consumed = current_tool_life t1
               - previousLifeAtEvent (tool_maintenance_history d) (tool_id cur),
            hlp_count_at_event = total_hlp cur,
            event_sequence = next_sequence (tool_maintenance_history d) (tool_id cur) (me_type ev),
            is_deleted = False, tmh_timestamp = now\<rparr>
    \<and> d1 = d\<lparr>centralized_inventory :=
                 map (\<lambda>r. if inventory_id r = i then apply_fields f r else r)
                   (centralized_inventory d),
              tool_maintenance_history := tool_maintenance_history d @ [h],
              next_history_id := Suc (next_history_id d)\<rparr>"
proof -
  obtain cur rest where c: "filter (\<lambda>r. inventory_id r = i) (centralized_inventory d) = cur # rest"
    using assms by (cases "filter (\<lambda>r. inventory_id r = i) (centralized_inventory d)")
      (simp_all add: updateInventoryTool_def)
  obtain f0 h0 me where cs: "check_status req cur = (f0, h0, me)"
    by (cases "check_status req cur")
  obtain f hc where cf: "check_fields req cur (f0, h0) = (f, hc)"
    by (cases "check_fields req cur (f0, h0)")
  from assms c cs cf obtain ev where me: "me = Some ev"
    by (cases me) (auto simp: updateInventoryTool_def Let_def split: if_splits)
  have h0: "h0"
    using cs me by (auto simp: check_status_def Let_def split: option.splits if_splits)
  have tid: "tool_id (apply_fields f cur) = tool_id cur"
       "total_hlp (apply_fields f cur) = total_hlp cur"
    by (simp_all add: apply_fields_def)
  show ?thesis
    using assms c cs cf me h0 tid
    by (auto simp: updateInventoryTool_def Let_def insert_history_def split: if_splits)
qed


lemma check_status_event:
  assumes "check_status req cur = (f0, hc, Some ev)"
  shows "hc \<and> fu_status f0 = upd_status req \<and> upd_status req \<noteq> Some (status cur)
    \<and> fu_current_tool_life f0 =
         (if truthy_number (upd_life_consumed req)
          then Some (current_tool_life cur + parseFloat_or_zero (upd_life_consumed req))
          else None)
    \<and> ((upd_status req = Some ''sent to madern for regrinding'' \<and> me_type ev = ''regrinding''
          \<and> fu_number_of_regrinding f0 = Some (number_of_regrinding cur + 1)
          \<and> fu_number_of_resegmentation f0 = None)
       \<or> (upd_status req = Some ''sent to madern for resegmentation''
          \<and> me_type ev = ''resegmentation''
          \<and> fu_number_of_resegmentation f0 = Some (number_of_resegmentation cur + 1)
          \<and> fu_number_of_regrinding f0 = None))"
  using assms
  by (auto simp: check_status_def Let_def no_fields_def split: option.splits if_splits)

lemma check_status_no_event:
  assumes "check_status req cur = (f0, hc, None)"
  shows "fu_number_of_regrinding f0 = None \<and> fu_number_of_resegmentation f0 = None
    \<and> fu_current_tool_life f0 = None
    \<and> (hc \<longleftrightarrow> (\<exists>st. upd_status req = Some st \<and> st \<noteq> status cur))
    \<and> fu_status f0 = (if hc then upd_status req else None)"
  using assms
  by (auto simp: check_status_def Let_def no_fields_def split: option.splits if_splits)

lemma truthy_parse:
  "\<not> truthy_number x \<Longrightarrow> parseFloat_or_zero x = 0"
  by (auto simp: truthy_number_def parseFloat_or_zero_def split: option.splits)

lemma distinct_key_eq:
  "distinct (map k xs) \<Longrightarrow> x \<in> set xs \<Longrightarrow> y \<in> set xs \<Longrightarrow> k x = k y \<Longrightarrow> x = y"
  by (meson distinct_map inj_on_def)

lemma filter_key_single:
  assumes "distinct (map k xs)" and "x \<in> set xs"
  shows "filter (\<lambda>r. k r = k x) xs = [x]"
  using assms
proof (induction xs)
  case Nil
  then show ?case by simp
next
  case (Cons a xs)
  show ?case
  proof (cases "a = x")
    case True
    have "\<forall>r\<in>set xs. k r \<noteq> k x" using Cons.prems True by (auto simp: image_iff)
    then have "filter (\<lambda>r. k r = k x) xs = []" by (simp add: filter_empty_conv)
    then show ?thesis using True by simp
  next
    case False
    then have xin: "x \<in> set xs" using Cons.prems by simp
    have "k a \<noteq> k x" using Cons.prems xin by (auto simp: image_iff)
    then show ?thesis using Cons.IH Cons.prems xin by simp
  qed
qed


lemma filter_fresh_history:
  assumes "list_all (\<lambda>h. history_id h < n) ledger" and "history_id h = n"
  shows "filter (\<lambda>x. history_id x = history_id h) (ledger @ [h]) = [h]"
    and "filter (\<lambda>x. history_id x \<noteq> history_id h) (ledger @ [h]) = ledger"
proof -
  have "\<forall>x\<in>set ledger. history_id x \<noteq> history_id h"
    using assms by (auto simp: list_all_iff)
  then show "filter (\<lambda>x. history_id x = history_id h) (ledger @ [h]) = [h]"
    and "filter (\<lambda>x. history_id x \<noteq> history_id h) (ledger @ [h]) = ledger"
    by (simp_all add: filter_empty_conv filter_id_conv)
qed

lemma apply_fields_keys:
  "tool_id (apply_fields f r) = tool_id r"
  "inventory_id (apply_fields f r) = inventory_id r"
  "total_hlp (apply_fields f r) = total_hlp r"
  "baseline_tool_life (apply_fields f r) = baseline_tool_life r"
  by (simp_all add: apply_fields_def)

lemma apply_event_row:
  assumes cs: "check_status req cur = (f0, True, Some ev)"
    and f: "f = fst (check_fields req cur (f0, True))"
  shows "current_tool_life (apply_fields f cur)
           = current_tool_life cur + parseFloat_or_zero (upd_life_consumed req)"
    and "me_type ev = ''regrinding'' \<or> me_type ev = ''resegmentation''"
    and "number_of_regrinding (apply_fields f cur)
           = number_of_regrinding cur + (if me_type ev = ''regrinding'' then 1 else 0)"
    and "number_of_resegmentation (apply_fields f cur)
           = number_of_resegmentation cur + (if me_type ev = ''regrinding'' then 0 else 1)"
    and "status (apply_fields f cur) = ''sent to madern for '' @ me_type ev"
proof -
  note e = check_status_event [OF cs]
  have fr: "fu_status f = fu_status f0" "fu_number_of_regrinding f = fu_number_of_regrinding f0"
    "fu_number_of_resegmentation f = fu_number_of_resegmentation f0"
    "fu_current_tool_life f = fu_current_tool_life f0"
    using f by (simp_all add: check_fields_frame)
  show "current_tool_life (apply_fields f cur)
           = current_tool_life cur + parseFloat_or_zero (upd_life_consumed req)"
    using e fr by (auto simp: apply_fields_def truthy_parse)
  show "me_type ev = ''regrinding'' \<or> me_type ev = ''resegmentation''"
    using e by auto
  show "number_of_regrinding (apply_fields f cur)
           = number_of_regrinding cur + (if me_type ev = ''regrinding'' then 1 else 0)"
    using e fr by (auto simp: apply_fields_def)
  show "number_of_resegmentation (apply_fields f cur)
           = number_of_resegmentation cur + (if me_type ev = ''regrinding'' then 0 else 1)"
    using e fr by (auto simp: apply_fields_def)
  show "status (apply_fields f cur) = ''sent to madern for '' @ me_type ev"
    using e fr by (auto simp: apply_fields_def)
qed

text \<open>
  C5. On a store with unique keys, applying a maintenance event and then reversing the
  ledger entry it created restores number_of_regrinding and number_of_resegmentation of
  every tool to their values before the event, while current_tool_life keeps the value
  it had after the event: the earlier value plus the consumed amount.
\<close>

theorem C5_apply_then_reverse:
  assumes ok: "keys_ok d"
    and upd: "updateInventoryTool u now i req d = (Updated t1 (Some h), d1)"
  shows "\<exists>reverted t2 d2.
      deleteMaintenanceHistory (history_id h) d1 = (Deleted reverted h t2, d2)
    \<and> map number_of_regrinding (centralized_inventory d2)
        = map number_of_regrinding (centralized_inventory d)
    \<and> map number_of_resegmentation (centralized_inventory d2)
        = map number_of_resegmentation (centralized_inventory d)
    \<and> map current_tool_life (centralized_inventory d2)
        = map current_tool_life (centralized_inventory d1)
    \<and> number_of_regrinding t1 + number_of_resegmentation t1
        = number_of_regrinding t2 + number_of_resegmentation t2 + 1
    \<and> current_tool_life t2 = current_tool_life t1
    \<and> (\<exists>cur\<in>set (centralized_inventory d). inventory_id cur = i
          \<and> number_of_regrinding t2 = number_of_regrinding cur
          \<and> number_of_resegmentation t2 = number_of_resegmentation cur
          \<and> current_tool_life t2
              = current_tool_life cur + parseFloat_or_zero (upd_life_consumed req))
    \<and> tool_maintenance_history d2 = tool_maintenance_history d"
proof -
  from update_event_shape [OF upd] obtain cur rest f0 ev f where
    c: "filter (\<lambda>r. inventory_id r = i) (centralized_inventory d) = cur # rest"
    and cs: "check_status req cur = (f0, True, Some ev)"
    and f: "f = fst (check_fields req cur (f0, True))"
    and t1: "t1 = apply_fields f cur"
    and hid: "history_id h = next_history_id d" and htid: "tmh_tool_id h = tool_id cur"
    and hty: "event_type h = me_type ev"
    and d1: "d1 = d\<lparr>centralized_inventory :=
                 map (\<lambda>r. if inventory_id r = i then apply_fields f r else r)
                   (centralized_inventory d),
              tool_maintenance_history := tool_maintenance_history d @ [h],
              next_history_id := Suc (next_history_id d)\<rparr>"
    by auto
  let ?inv = "centralized_inventory d"
  let ?g = "\<lambda>r. if inventory_id r = i then apply_fields f r else r"
  have "cur \<in> set (filter (\<lambda>r. inventory_id r = i) ?inv)" using c by simp
  then have cin: "cur \<in> set ?inv" and ci: "inventory_id cur = i" by simp_all
  have dinv: "distinct (map inventory_id ?inv)" and dtid: "distinct (map tool_id ?inv)"
    and fresh: "list_all (\<lambda>h. history_id h < next_history_id d) (tool_maintenance_history d)"
    using ok by (simp_all add: keys_ok_def)
  have only: "\<And>r. r \<in> set ?inv \<Longrightarrow> inventory_id r = i \<Longrightarrow> r = cur"
    using distinct_key_eq [OF dinv _ cin] ci by simp
  have other: "\<And>r. r \<in> set ?inv \<Longrightarrow> r \<noteq> cur \<Longrightarrow> tool_id r \<noteq> tool_id cur"
    using distinct_key_eq [OF dtid _ cin] by blast
  have gt: "\<And>r. tool_id (?g r) = tool_id r" by (simp add: apply_fields_keys)
  have "filter (\<lambda>r. tool_id r = tool_id cur) (map ?g ?inv)
          = map ?g (filter (\<lambda>r. tool_id r = tool_id cur) ?inv)"
    by (simp add: filter_map comp_def gt)
  also have "\<dots> = [t1]"
    using filter_key_single [OF dtid cin] ci t1 by simp
  finally have look: "filter (\<lambda>r. tool_id r = tmh_tool_id h) (centralized_inventory d1) = [t1]"
    using d1 htid by simp
  note fh = filter_fresh_history [OF fresh hid]
  have led: "filter (\<lambda>x. history_id x = history_id h) (tool_maintenance_history d1) = [h]"
       "filter (\<lambda>x. history_id x \<noteq> history_id h) (tool_maintenance_history d1)
          = tool_maintenance_history d"
    using fh d1 by simp_all
  note row = apply_event_row [OF cs f]
  obtain reverted t2 d2 where
    del: "deleteMaintenanceHistory (history_id h) d1 = (Deleted reverted h t2, d2)"
    and t2r: "number_of_regrinding t2
               = number_of_regrinding t1 - (if event_type h = ''regrinding'' then 1 else 0)"
    and t2s: "number_of_resegmentation t2
               = number_of_resegmentation t1 - (if event_type h = ''regrinding'' then 0 else 1)"
    and t2l: "current_tool_life t2 = current_tool_life t1"
    and d2l: "tool_maintenance_history d2 = tool_maintenance_history d"
    and d2inv: "centralized_inventory d2
        = map (\<lambda>r. if tool_id r = tool_id cur
                    then r\<lparr>number_of_regrinding := number_of_regrinding r
                              - (if event_type h = ''regrinding'' then 1 else 0),
                           number_of_resegmentation := number_of_resegmentation r
                              - (if event_type h = ''regrinding'' then 0 else 1),
                           status := (if reverted then ''running'' else status r)\<rparr>
                    else r) (centralized_inventory d1)"
    using look led htid
    by (cases "event_type h = ''regrinding''")
       (simp_all add: deleteMaintenanceHistory_def Let_def)
  have pt: "\<And>r. r \<in> set ?inv \<Longrightarrow>
      number_of_regrinding ((\<lambda>r. if tool_id r = tool_id cur
                    then r\<lparr>number_of_regrinding := number_of_regrinding r
                              - (if event_type h = ''regrinding'' then 1 else 0),
                           number_of_resegmentation := number_of_resegmentation r
                              - (if event_type h = ''regrinding'' then 0 else 1),
                           status := (if reverted then ''running'' else status r)\<rparr>
                    else r) (?g r)) = number_of_regrinding r
    \<and> number_of_resegmentation ((\<lambda>r. if tool_id r = tool_id cur
                    then r\<lparr>number_of_regrinding := number_of_regrinding r
                              - (if event_type h = ''regrinding'' then 1 else 0),
                           number_of_resegmentation := number_of_resegmentation r
                              - (if event_type h = ''regrinding'' then 0 else 1),
                           status := (if reverted then ''running'' else status r)\<rparr>
                    else r) (?g r)) = number_of_resegmentation r
    \<and> current_tool_life ((\<lambda>r. if tool_id r = tool_id cur
                    then r\<lparr>number_of_regrinding := number_of_regrinding r
                              - (if event_type h = ''regrinding'' then 1 else 0),
                           number_of_resegmentation := number_of_resegmentation r
                              - (if event_type h = ''regrinding'' then 0 else 1),
                           status := (if reverted then ''running'' else status r)\<rparr>
                    else r) (?g r)) = current_tool_life (?g r)"
  proof -
    fix r assume rin: "r \<in> set ?inv"
    show "?thesis r"
    proof (cases "r = cur")
      case True
      then show ?thesis using ci row hty by (simp add: apply_fields_keys)
    next
      case False
      then have "inventory_id r \<noteq> i" "tool_id r \<noteq> tool_id cur"
        using only [OF rin] other [OF rin] by auto
      then show ?thesis by simp
    qed
  qed
  have m1: "map number_of_regrinding (centralized_inventory d2) = map number_of_regrinding ?inv"
    and m2: "map number_of_resegmentation (centralized_inventory d2)
               = map number_of_resegmentation ?inv"
    and m3: "map current_tool_life (centralized_inventory d2)
               = map current_tool_life (centralized_inventory d1)"
    unfolding d2inv d1 using pt by (simp_all add: comp_def)
  have cnt: "number_of_regrinding t1 + number_of_resegmentation t1
        = number_of_regrinding t2 + number_of_resegmentation t2 + 1"
    using t2r t2s by simp
  have pre: "number_of_regrinding t2 = number_of_regrinding cur"
       "number_of_resegmentation t2 = number_of_resegmentation cur"
       "current_tool_life t2
          = current_tool_life cur + parseFloat_or_zero (upd_life_consumed req)"
    using t2r t2s t2l row hty t1 by simp_all
  show ?thesis
    using del m1 m2 m3 cnt t2l pre cin ci d2l by blast
qed

lemma imported_db_rows:
  "centralized_inventory imported_db =
     [\<lparr>inventory_id = 1, tool_id = 1, material_id = ''4711'', batch_id = ''B1'',
       tool_name = ''T1'', current_factory_id = 1, type = ''cutting'', format = Some ''A4'',
       status = ''not in use'', current_tool_life = 0, baseline_tool_life = 0, total_hlp = 0,
       number_of_regrinding = 1, number_of_resegmentation = 1, manufacturer = None,
       web_width = None\<rparr>]"
  "tool_maintenance_history imported_db =
     [\<lparr>history_id = 1, tmh_tool_id = 1, event_type = ''regrinding'', tool_life_at_event = 100,
       life_consumed = 100, hlp_count_at_event = 0, event_sequence = 1, is_deleted = False,
       tmh_timestamp = 172800000\<rparr>,
      \<lparr>history_id = 2, tmh_tool_id = 1, event_type = ''resegmentation'',
       tool_life_at_event = 150, life_consumed = 50, hlp_count_at_event = 0,
       event_sequence = 1, is_deleted = False, tmh_timestamp = 259200000\<rparr>]"
  "next_history_id imported_db = 3"
  "next_inventory_id imported_db = 2" "next_tool_id imported_db = 2"
  by (simp_all add: imported_db_def createHistoricalTools_def import_tool_def
        insert_historical_tool_def insert_history_def Let_def parseFloat_or_zero_def
        validate_eval unit_admin_def case_prod_beta empty_db_def sample_tool_def
        sample_events_def regrindCount_def resegCount_def normalize_upper_def toUpperCase_def
        upper_char_def)

lemma serviced_db_rows:
  "centralized_inventory serviced_db =
     [\<lparr>inventory_id = 1, tool_id = 1, material_id = ''4711'', batch_id = ''B1'',
       tool_name = ''T1'', current_factory_id = 1, type = ''cutting'', format = Some ''A4'',
       status = ''sent to madern for regrinding'', current_tool_life = 10,
       baseline_tool_life = 0, total_hlp = 0,
       number_of_regrinding = 2, number_of_resegmentation = 1, manufacturer = None,
       web_width = None\<rparr>]"
  "tool_maintenance_history serviced_db =
     [\<lparr>history_id = 1, tmh_tool_id = 1, event_type = ''regrinding'', tool_life_at_event = 100,
       life_consumed = 100, hlp_count_at_event = 0, event_sequence = 1, is_deleted = False,
       tmh_timestamp = 172800000\<rparr>,
      \<lparr>history_id = 2, tmh_tool_id = 1, event_type = ''resegmentation'',
       tool_life_at_event = 150, life_consumed = 50, hlp_count_at_event = 0,
       event_sequence = 1, is_deleted = False, tmh_timestamp = 259200000\<rparr>,
      \<lparr>history_id = 3, tmh_tool_id = 1, event_type = ''regrinding'', tool_life_at_event = 10,
       life_consumed = - 140, hlp_count_at_event = 0, event_sequence = 2, is_deleted = False,
       tmh_timestamp = 345600000\<rparr>]"
  "next_history_id serviced_db = 4"
  "next_inventory_id serviced_db = 2" "next_tool_id serviced_db = 2"
  by (simp_all add: serviced_db_def updateInventoryTool_def imported_db_rows unit_admin_def
        send_to_def no_update_def check_status_def check_fields_def check_step_defs
        no_fields_def Let_def parseFloat_or_zero_def truthy_number_def apply_fields_def
        next_sequence_def previousLifeAtEvent_def insert_history_def)

lemmas update_eval = updateInventoryTool_def unit_admin_def
  send_to_def no_update_def check_status_def check_fields_def check_step_defs
  no_fields_def Let_def parseFloat_or_zero_def truthy_number_def apply_fields_def
  next_sequence_def previousLifeAtEvent_def insert_history_def

lemma sql_max_Max: "sql_max xs = (if xs = [] then None else Some (Max (set xs)))"
proof (induction xs)
  case Nil
  show ?case by simp
next
  case (Cons x xs)
  show ?case
  proof (cases "xs = []")
    case True
    then show ?thesis by simp
  next
    case False
    then have "Max (set (x # xs)) = max x (Max (set xs))" by simp
    then show ?thesis using Cons False by simp
  qed
qed

lemma next_sequence_Max:
  "next_sequence ledger tid ety
     = (let S = event_sequence `
                  {e \<in> set ledger. tmh_tool_id e = tid \<and> event_type e = ety}
        in if S = {} then 1 else Max S + 1)"
proof -
  let ?xs = "map event_sequence
               (filter (\<lambda>h. tmh_tool_id h = tid \<and> event_type h = ety) ledger)"
  have s: "set ?xs = event_sequence `
             {e \<in> set ledger. tmh_tool_id e = tid \<and> event_type e = ety}"
    by auto
  have e: "?xs = [] \<longleftrightarrow> set ?xs = {}" by (simp only: set_empty)
  show ?thesis
    unfolding next_sequence_def sql_max_Max e s by (auto simp: Let_def)
qed

lemma previousLifeAtEvent_Max:
  "previousLifeAtEvent ledger tid
     = (let L = tool_life_at_event `
                  {e \<in> set ledger. tmh_tool_id e = tid \<and> \<not> is_deleted e}
        in if L = {} then 0 else Max L)"
proof -
  let ?xs = "map tool_life_at_event
               (filter (\<lambda>h. tmh_tool_id h = tid \<and> \<not> is_deleted h) ledger)"
  have s: "set ?xs = tool_life_at_event `
             {e \<in> set ledger. tmh_tool_id e = tid \<and> \<not> is_deleted e}"
    by auto
  have e: "?xs = [] \<longleftrightarrow> set ?xs = {}" by (simp only: set_empty)
  show ?thesis
    unfolding previousLifeAtEvent_def sql_max_Max e s by (auto simp: Let_def)
qed

text \<open>
  C2 (as amended). A status change to a maintenance sentinel increments the counter of
  the event's type by one and leaves the other counter, advances current_tool_life by
  the consumed amount, gives the new ledger entry the next event_sequence of its tool
  and event type (one more than the greatest so far, 1 when there is none), sets its
  tool_life_at_event to the updated current_tool_life, and records as its life_consumed
  the updated current_tool_life minus the greatest tool_life_at_event among the
  non-deleted ledger entries of the tool, 0 standing for that greatest value when
  there is no such entry.
\<close>

theorem C2_apply_event:
  assumes upd: "updateInventoryTool u now i req d = (Updated t1 (Some h), d1)"
  shows "\<exists>cur\<in>set (centralized_inventory d).
      inventory_id cur = i \<and> tool_id t1 = tool_id cur \<and> tmh_tool_id h = tool_id cur
    \<and> upd_status req = Some (status t1) \<and> status t1 \<noteq> status cur
    \<and> ((event_type h = ''regrinding'' \<and> status t1 = ''sent to madern for regrinding''
          \<and> number_of_regrinding t1 = number_of_regrinding cur + 1
          \<and> number_of_resegmentation t1 = number_of_resegmentation cur)
       \<or> (event_type h = ''resegmentation''
          \<and> status t1 = ''sent to madern for resegmentation''
          \<and> number_of_resegmentation t1 = number_of_resegmentation cur + 1
          \<and> number_of_regrinding t1 = number_of_regrinding cur))
    \<and> current_tool_life t1
         = current_tool_life cur + parseFloat_or_zero (upd_life_consumed req)
    \<and> event_sequence h
         = (let S = event_sequence `
                      {e \<in> set (tool_maintenance_history d).
                         tmh_tool_id e = tool_id cur \<and> event_type e = event_type h}
            in if S = {} then 1 else Max S + 1)
    \<and> tool_life_at_event h = current_tool_life t1
    \<and> life_consumed h
         = current_tool_life t1
           - (let L = tool_life_at_event `
                        {e \<in> set (tool_maintenance_history d).
                           tmh_tool_id e = tool_id cur \<and> \<not> is_deleted e}
              in if L = {} then 0 else Max L)
    \<and> \<not> is_deleted h
    \<and> tool_maintenance_history d1 = tool_maintenance_history d @ [h]"
proof -
  from update_event_shape [OF upd] obtain cur rest f0 ev f where
    c: "filter (\<lambda>r. inventory_id r = i) (centralized_inventory d) = cur # rest"
    and cs: "check_status req cur = (f0, True, Some ev)"
    and f: "f = fst (check_fields req cur (f0, True))"
    and t1: "t1 = apply_fields f cur"
    and h: "h = \<lparr>history_id = next_history_id d, tmh_tool_id = tool_id cur,
            event_type = me_type ev, tool_life_at_event = current_tool_life t1,
            life_consumed = current_tool_life t1
               - previousLifeAtEvent (tool_maintenance_history d) (tool_id cur),
            hlp_count_at_event = total_hlp cur,
            event_sequence = next_sequence (tool_maintenance_history d) (tool_id cur) (me_type ev),
            is_deleted = False, tmh_timestamp = now\<rparr>"
    and d1: "tool_maintenance_history d1 = tool_maintenance_history d @ [h]"
    by auto
  have "cur \<in> set (filter (\<lambda>r. inventory_id r = i) (centralized_inventory d))" using c by simp
  then have cin: "cur \<in> set (centralized_inventory d)" and ci: "inventory_id cur = i"
    by simp_all
  note row = apply_event_row [OF cs f]
  note e = check_status_event [OF cs]
  have st: "upd_status req = Some (status t1)" "status t1 \<noteq> status cur"
    using e row(5) t1 by auto
  have cnt: "(event_type h = ''regrinding'' \<and> status t1 = ''sent to madern for regrinding''
          \<and> number_of_regrinding t1 = number_of_regrinding cur + 1
          \<and> number_of_resegmentation t1 = number_of_resegmentation cur)
       \<or> (event_type h = ''resegmentation''
          \<and> status t1 = ''sent to madern for resegmentation''
          \<and> number_of_resegmentation t1 = number_of_resegmentation cur + 1
          \<and> number_of_regrinding t1 = number_of_regrinding cur)"
    using row h t1 by auto
  have sq: "event_sequence h
         = (let S = event_sequence `
                      {e \<in> set (tool_maintenance_history d).
                         tmh_tool_id e = tool_id cur \<and> event_type e = event_type h}
            in if S = {} then 1 else Max S + 1)"
    using h next_sequence_Max [of "tool_maintenance_history d" "tool_id cur" "me_type ev"]
    by simp
  have lc: "life_consumed h
         = current_tool_life t1
           - (let L = tool_life_at_event `
                        {e \<in> set (tool_maintenance_history d).
                           tmh_tool_id e = tool_id cur \<and> \<not> is_deleted e}
              in if L = {} then 0 else Max L)"
    using h previousLifeAtEvent_Max [of "tool_maintenance_history d" "tool_id cur"]
    by simp
  have rest: "tool_id t1 = tool_id cur" "tmh_tool_id h = tool_id cur"
    "tool_life_at_event h = current_tool_life t1" "\<not> is_deleted h"
    using t1 h by (simp_all add: apply_fields_keys)
  show ?thesis
    using cin ci st cnt row(1) t1 sq lc rest d1 by blast
qed


lemma serviced_keys_ok: "keys_ok serviced_db"
  by (simp add: keys_ok_def serviced_db_rows)

lemma resegmentation_of_serviced:
  "\<exists>t1 h d1. updateInventoryTool unit_admin 432000000 1 (send_to ''resegmentation'' 5)
                 serviced_db = (Updated t1 (Some h), d1)"
  by (simp add: update_eval serviced_db_rows)

theorem C2_apply_event_witness:
  "\<exists>t1 h d1.
      updateInventoryTool unit_admin 432000000 1 (send_to ''resegmentation'' 5) serviced_db
        = (Updated t1 (Some h), d1)
    \<and> number_of_resegmentation t1 = 2 \<and> number_of_regrinding t1 = 2
    \<and> current_tool_life t1 = 15 \<and> tool_life_at_event h = 15
    \<and> tool_maintenance_history d1 = tool_maintenance_history serviced_db @ [h]"
proof -
  from resegmentation_of_serviced obtain t1 h d1 where
    U: "updateInventoryTool unit_admin 432000000 1 (send_to ''resegmentation'' 5) serviced_db
          = (Updated t1 (Some h), d1)"
    by blast
  have st: "upd_status (send_to ''resegmentation'' 5) = Some ''sent to madern for resegmentation''"
       "parseFloat_or_zero (upd_life_consumed (send_to ''resegmentation'' 5)) = 5"
    by (simp_all add: send_to_def no_update_def parseFloat_or_zero_def)
  from C2_apply_event [OF U]
  have "number_of_resegmentation t1 = 2 \<and> number_of_regrinding t1 = 2
    \<and> current_tool_life t1 = 15 \<and> tool_life_at_event h = 15
    \<and> tool_maintenance_history d1 = tool_maintenance_history serviced_db @ [h]"
    unfolding st by (auto simp: serviced_db_rows(1))
  then show ?thesis using U by blast
qed

theorem C2_prior_life_counterexample:
  "map life_consumed
     (tool_maintenance_history
        (snd (updateInventoryTool unit_admin 432000000 1 (send_to ''resegmentation'' 5)
                serviced_db))) = [100, 50, - 140, - 135]
   \<and> map current_tool_life
       (centralized_inventory
          (snd (updateInventoryTool unit_admin 432000000 1 (send_to ''resegmentation'' 5)
                  serviced_db))) = [15]
   \<and> 15 - spec_prior_life (tool_maintenance_history serviced_db) 1 = 5"
  by (simp add: update_eval serviced_db_rows spec_prior_life_def spec_most_recent_event_def)

theorem C5_apply_then_reverse_witness:
  "keys_ok serviced_db
   \<and> (\<exists>t1 h d1.
        updateInventoryTool unit_admin 432000000 1 (send_to ''resegmentation'' 5) serviced_db
          = (Updated t1 (Some h), d1)
      \<and> (\<exists>reverted t2 d2.
            deleteMaintenanceHistory (history_id h) d1 = (Deleted reverted h t2, d2)
          \<and> map number_of_regrinding (centralized_inventory d2) = [2]
          \<and> map number_of_resegmentation (centralized_inventory d2) = [1]
          \<and> current_tool_life t2 = 15))"
proof -
  from resegmentation_of_serviced obtain t1 h d1 where
    U: "updateInventoryTool unit_admin 432000000 1 (send_to ''resegmentation'' 5) serviced_db
          = (Updated t1 (Some h), d1)"
    by blast
  have lc: "parseFloat_or_zero (upd_life_consumed (send_to ''resegmentation'' 5)) = 5"
    by (simp add: send_to_def no_update_def parseFloat_or_zero_def)
  from C5_apply_then_reverse [OF serviced_keys_ok U]
  have "\<exists>reverted t2 d2.
            deleteMaintenanceHistory (history_id h) d1 = (Deleted reverted h t2, d2)
          \<and> map number_of_regrinding (centralized_inventory d2) = [2]
          \<and> map number_of_resegmentation (centralized_inventory d2) = [1]
          \<and> current_tool_life t2 = 15"
    unfolding lc by (auto simp: serviced_db_rows(1))
  with U have "\<exists>t1 h d1.
        updateInventoryTool unit_admin 432000000 1 (send_to ''resegmentation'' 5) serviced_db
          = (Updated t1 (Some h), d1)
      \<and> (\<exists>reverted t2 d2.
            deleteMaintenanceHistory (history_id h) d1 = (Deleted reverted h t2, d2)
          \<and> map number_of_regrinding (centralized_inventory d2) = [2]
          \<and> map number_of_resegmentation (centralized_inventory d2) = [1]
          \<and> current_tool_life t2 = 15)"
    by (intro exI [of _ t1] exI [of _ h] exI [of _ d1] conjI)
  then show ?thesis using serviced_keys_ok by (rule conjI [rotated])
qed

lemma inspected_db_rows:
  "map number_of_resegmentation (centralized_inventory inspected_db) = [0]"
  "map number_of_regrinding (centralized_inventory inspected_db) = [0]"
  "map tool_id (centralized_inventory inspected_db) = [1]"
  "map (\<lambda>h. (history_id h, tmh_tool_id h, event_type h)) (tool_maintenance_history inspected_db)
     = [(1, 1, ''inspection'')]"
  by (simp_all add: inspected_db_def createHistoricalTools_def import_tool_def
        insert_historical_tool_def insert_history_def Let_def parseFloat_or_zero_def
        validate_eval unit_admin_def case_prod_beta empty_db_def sample_tool_def
        regrindCount_def resegCount_def)

text \<open>
  C6. Reversing a ledger entry while the counter it decrements is 0: the stored
  number_of_resegmentation of the tool becomes -1. The floor computed in
  \<open>newCount\<close> is not what the \<open>UPDATE\<close> writes.
\<close>

theorem C6_reversal_below_zero:
  "map number_of_resegmentation (centralized_inventory inspected_db) = [0]
   \<and> map history_id (tool_maintenance_history inspected_db) = [1]
   \<and> map number_of_resegmentation
       (centralized_inventory (snd (deleteMaintenanceHistory 1 inspected_db))) = [- 1]
   \<and> tool_maintenance_history (snd (deleteMaintenanceHistory 1 inspected_db)) = []"
  by (simp add: deleteMaintenanceHistory_def inspected_db_def createHistoricalTools_def
        import_tool_def insert_historical_tool_def insert_history_def Let_def
        parseFloat_or_zero_def validate_eval unit_admin_def case_prod_beta empty_db_def
        sample_tool_def regrindCount_def resegCount_def)

subsection \<open>Updates without a maintenance event\<close>

lemma check_steps_eq:
  "check_current_factory_id req c fh =
     ((fst fh)\<lparr>fu_current_factory_id :=
         (case upd_current_factory_id req of
            None \<Rightarrow> fu_current_factory_id (fst fh)
          | Some v \<Rightarrow> if v \<noteq> current_factory_id c then Some v
                      else fu_current_factory_id (fst fh))\<rparr>,
      snd fh \<or> (case upd_current_factory_id req of
                  None \<Rightarrow> False | Some v \<Rightarrow> v \<noteq> current_factory_id c))"
  "check_format req c fh =
     ((fst fh)\<lparr>fu_format :=
         (case upd_format req of
            None \<Rightarrow> fu_format (fst fh)
          | Some v \<Rightarrow> if normalize_upper (Some v) \<noteq> upper_or_null (format c)
                      then Some (normalize_upper (Some v)) else fu_format (fst fh))\<rparr>,
      snd fh \<or> (case upd_format req of
                  None \<Rightarrow> False
                | Some v \<Rightarrow> normalize_upper (Some v) \<noteq> upper_or_null (format c)))"
  "check_tool_name req c fh =
     ((fst fh)\<lparr>fu_tool_name :=
         (case upd_tool_name req of
            None \<Rightarrow> fu_tool_name (fst fh)
          | Some v \<Rightarrow> if v \<noteq> tool_name c then Some (trim v) else fu_tool_name (fst fh))\<rparr>,
      snd fh \<or> (case upd_tool_name req of None \<Rightarrow> False | Some v \<Rightarrow> v \<noteq> tool_name c))"
  "check_material_id req c fh =
     ((fst fh)\<lparr>fu_material_id :=
         (case upd_material_id req of
            None \<Rightarrow> fu_material_id (fst fh)
          | Some v \<Rightarrow> if v \<noteq> material_id c then Some (trim v)
                      else fu_material_id (fst fh))\<rparr>,
      snd fh \<or> (case upd_material_id req of None \<Rightarrow> False | Some v \<Rightarrow> v \<noteq> material_id c))"
  "check_batch_id req c fh =
     ((fst fh)\<lparr>fu_batch_id :=
         (case upd_batch_id req of
            None \<Rightarrow> fu_batch_id (fst fh)
          | Some v \<Rightarrow> if v \<noteq> batch_id c then Some (trim v) else fu_batch_id (fst fh))\<rparr>,
      snd fh \<or> (case upd_batch_id req of None \<Rightarrow> False | Some v \<Rightarrow> v \<noteq> batch_id c))"
  "check_type req c fh =
     ((fst fh)\<lparr>fu_type :=
         (case upd_type req of
            None \<Rightarrow> fu_type (fst fh)
          | Some v \<Rightarrow> if v \<noteq> type c then Some (trim v) else fu_type (fst fh))\<rparr>,
      snd fh \<or> (case upd_type req of None \<Rightarrow> False | Some v \<Rightarrow> v \<noteq> type c))"
  "check_manufacturer req c fh =
     ((fst fh)\<lparr>fu_manufacturer :=
         (case upd_manufacturer req of
            None \<Rightarrow> fu_manufacturer (fst fh)
          | Some v \<Rightarrow> if Some v \<noteq> manufacturer c then Some (trim v)
                      else fu_manufacturer (fst fh))\<rparr>,
      snd fh \<or> (case upd_manufacturer req of
                  None \<Rightarrow> False | Some v \<Rightarrow> Some v \<noteq> manufacturer c))"
  "check_web_width req c fh =
     ((fst fh)\<lparr>fu_web_width :=
         (case upd_web_width req of
            None \<Rightarrow> fu_web_width (fst fh)
          | Some v \<Rightarrow> if normalize_upper (Some v) \<noteq> upper_or_null (web_width c)
                      then Some (normalize_upper (Some v)) else fu_web_width (fst fh))\<rparr>,
      snd fh \<or> (case upd_web_width req of
                  None \<Rightarrow> False
                | Some v \<Rightarrow> normalize_upper (Some v) \<noteq> upper_or_null (web_width c)))"
  by (cases fh; simp add: check_step_defs Let_def split: option.splits)+

lemma check_status_plain:
  assumes "upd_status req \<noteq> Some ''sent to madern for regrinding''"
    and "upd_status req \<noteq> Some ''sent to madern for resegmentation''"
  shows "check_status req cur =
     (no_fields\<lparr>fu_status := (case upd_status req of
                                 None \<Rightarrow> None
                               | Some st \<Rightarrow> if st = status cur then None else Some st)\<rparr>,
      (case upd_status req of None \<Rightarrow> False | Some st \<Rightarrow> st \<noteq> status cur),
      None)"
  using assms by (auto simp: check_status_def Let_def no_fields_def split: option.splits)


lemma check_fields_sel:
  "fu_current_factory_id (fst (check_fields req c fh)) =
     (case upd_current_factory_id req of
        None \<Rightarrow> fu_current_factory_id (fst fh)
      | Some v \<Rightarrow> if v \<noteq> current_factory_id c then Some v
                  else fu_current_factory_id (fst fh))"
  "fu_format (fst (check_fields req c fh)) =
     (case upd_format req of
        None \<Rightarrow> fu_format (fst fh)
      | Some v \<Rightarrow> if normalize_upper (Some v) \<noteq> upper_or_null (format c)
                  then Some (normalize_upper (Some v)) else fu_format (fst fh))"
  "fu_tool_name (fst (check_fields req c fh)) =
     (case upd_tool_name req of
        None \<Rightarrow> fu_tool_name (fst fh)
      | Some v \<Rightarrow> if v \<noteq> tool_name c then Some (trim v) else fu_tool_name (fst fh))"
  "fu_material_id (fst (check_fields req c fh)) =
     (case upd_material_id req of
        None \<Rightarrow> fu_material_id (fst fh)
      | Some v \<Rightarrow> if v \<noteq> material_id c then Some (trim v) else fu_material_id (fst fh))"
  "fu_batch_id (fst (check_fields req c fh)) =
     (case upd_batch_id req of
        None \<Rightarrow> fu_batch_id (fst fh)
      | Some v \<Rightarrow> if v \<noteq> batch_id c then Some (trim v) else fu_batch_id (fst fh))"
  "fu_type (fst (check_fields req c fh)) =
     (case upd_type req of
        None \<Rightarrow> fu_type (fst fh)
      | Some v \<Rightarrow> if v \<noteq> type c then Some (trim v) else fu_type (fst fh))"
  "fu_manufacturer (fst (check_fields req c fh)) =
     (case upd_manufacturer req of
        None \<Rightarrow> fu_manufacturer (fst fh)
      | Some v \<Rightarrow> if Some v \<noteq> manufacturer c then Some (trim v)
                  else fu_manufacturer (fst fh))"
  "fu_web_width (fst (check_fields req c fh)) =
     (case upd_web_width req of
        None \<Rightarrow> fu_web_width (fst fh)
      | Some v \<Rightarrow> if normalize_upper (Some v) \<noteq> upper_or_null (web_width c)
                  then Some (normalize_upper (Some v)) else fu_web_width (fst fh))"
  "fu_status (fst (check_fields req c fh)) = fu_status (fst fh)"
  "fu_number_of_regrinding (fst (check_fields req c fh)) = fu_number_of_regrinding (fst fh)"
  "fu_number_of_resegmentation (fst (check_fields req c fh))
     = fu_number_of_resegmentation (fst fh)"
  "fu_current_tool_life (fst (check_fields req c fh)) = fu_current_tool_life (fst fh)"
  by (simp_all add: check_fields_def check_steps_eq cong: option.case_cong if_cong)

lemma check_fields_changes:
  "snd (check_fields req c fh) =
     (snd fh
      \<or> (case upd_current_factory_id req of
            None \<Rightarrow> False | Some v \<Rightarrow> v \<noteq> current_factory_id c)
      \<or> (case upd_format req of
            None \<Rightarrow> False
          | Some v \<Rightarrow> normalize_upper (Some v) \<noteq> upper_or_null (format c))
      \<or> (case upd_tool_name req of None \<Rightarrow> False | Some v \<Rightarrow> v \<noteq> tool_name c)
      \<or> (case upd_material_id req of None \<Rightarrow> False | Some v \<Rightarrow> v \<noteq> material_id c)
      \<or> (case upd_batch_id req of None \<Rightarrow> False | Some v \<Rightarrow> v \<noteq> batch_id c)
      \<or> (case upd_type req of None \<Rightarrow> False | Some v \<Rightarrow> v \<noteq> type c)
      \<or> (case upd_manufacturer req of
            None \<Rightarrow> False | Some v \<Rightarrow> Some v \<noteq> manufacturer c)
      \<or> (case upd_web_width req of
            None \<Rightarrow> False
          | Some v \<Rightarrow> normalize_upper (Some v) \<noteq> upper_or_null (web_width c)))"
  by (simp add: check_fields_def check_steps_eq disj_ac)

lemma apply_fields_sel:
  "status (apply_fields f r) = (case fu_status f of None \<Rightarrow> status r | Some v \<Rightarrow> v)"
  "number_of_regrinding (apply_fields f r)
     = (case fu_number_of_regrinding f of None \<Rightarrow> number_of_regrinding r | Some v \<Rightarrow> v)"
  "number_of_resegmentation (apply_fields f r)
     = (case fu_number_of_resegmentation f of
          None \<Rightarrow> number_of_resegmentation r | Some v \<Rightarrow> v)"
  "current_tool_life (apply_fields f r)
     = (case fu_current_tool_life f of None \<Rightarrow> current_tool_life r | Some v \<Rightarrow> v)"
  "current_factory_id (apply_fields f r)
     = (case fu_current_factory_id f of None \<Rightarrow> current_factory_id r | Some v \<Rightarrow> v)"
  "format (apply_fields f r) = (case fu_format f of None \<Rightarrow> format r | Some v \<Rightarrow> v)"
  "tool_name (apply_fields f r)
     = (case fu_tool_name f of None \<Rightarrow> tool_name r | Some v \<Rightarrow> v)"
  "material_id (apply_fields f r)
     = (case fu_material_id f of None \<Rightarrow> material_id r | Some v \<Rightarrow> v)"
  "batch_id (apply_fields f r) = (case fu_batch_id f of None \<Rightarrow> batch_id r | Some v \<Rightarrow> v)"
  "type (apply_fields f r) = (case fu_type f of None \<Rightarrow> type r | Some v \<Rightarrow> v)"
  "manufacturer (apply_fields f r)
     = (case fu_manufacturer f of None \<Rightarrow> manufacturer r | Some v \<Rightarrow> Some v)"
  "web_width (apply_fields f r)
     = (case fu_web_width f of None \<Rightarrow> web_width r | Some v \<Rightarrow> v)"
  "inventory_id (apply_fields f r) = inventory_id r"
  "tool_id (apply_fields f r) = tool_id r"
  "baseline_tool_life (apply_fields f r) = baseline_tool_life r"
  "total_hlp (apply_fields f r) = total_hlp r"
  by (simp_all add: apply_fields_def)

lemma plain_update_row:
  assumes "upd_status req \<noteq> Some ''sent to madern for regrinding''"
    and "upd_status req \<noteq> Some ''sent to madern for resegmentation''"
    and "check_status req cur = (f0, h0, me)"
  shows "only_differing_fields req cur (apply_fields (fst (check_fields req cur (f0, h0))) cur)"
proof -
  have f0: "f0 = no_fields\<lparr>fu_status := (case upd_status req of
                                 None \<Rightarrow> None
                               | Some st \<Rightarrow> if st = status cur then None else Some st)\<rparr>"
    using check_status_plain [OF assms(1,2), of cur] assms(3) by simp
  show ?thesis
    unfolding only_differing_fields_def
    by (intro conjI;
        simp add: apply_fields_sel check_fields_sel f0 no_fields_def split: option.splits)
qed


lemma only_differing_fields_refl: "only_differing_fields req r r"
  by (simp add: only_differing_fields_def)

lemma no_difference_no_changes:
  assumes "no_field_differs req cur" and "check_status req cur = (f0, h0, me)"
  shows "\<not> snd (check_fields req cur (f0, h0))"
proof -
  have "\<not> h0"
    using assms by (auto simp: check_status_def no_field_differs_def split: option.splits)
  then show ?thesis
    using assms(1) unfolding check_fields_changes no_field_differs_def
    by (auto split: option.splits)
qed

text \<open>
  C10. An update whose status value is neither of the two maintenance sentinels writes no
  ledger entry and leaves number_of_regrinding, number_of_resegmentation and
  current_tool_life of every row as they are; on the addressed row (inventory ids being
  unique) a field changes only when the request provides it with a value that differs
  from the current one, all other rows stay as they are, and a request in which no
  provided field differs leaves the store unchanged.
\<close>

theorem C10_plain_update_frame:
  assumes ns1: "upd_status req \<noteq> Some ''sent to madern for regrinding''"
    and ns2: "upd_status req \<noteq> Some ''sent to madern for resegmentation''"
    and dist: "distinct (map inventory_id (centralized_inventory d))"
  shows "tool_maintenance_history (snd (updateInventoryTool u now i req d))
           = tool_maintenance_history d
    \<and> list_all2 (\<lambda>r r'. if inventory_id r = i then only_differing_fields req r r' else r' = r)
         (centralized_inventory d)
         (centralized_inventory (snd (updateInventoryTool u now i req d)))
    \<and> ((\<forall>cur\<in>set (centralized_inventory d). inventory_id cur = i \<longrightarrow> no_field_differs req cur)
         \<longrightarrow> snd (updateInventoryTool u now i req d) = d)
    \<and> (\<forall>t e. fst (updateInventoryTool u now i req d) = Updated t e \<longrightarrow> e = None)"
proof -
  let ?inv = "centralized_inventory d"
  let ?P = "\<lambda>r r'. if inventory_id r = i then only_differing_fields req r r' else r' = r"
  have same: "list_all2 ?P ?inv ?inv"
    by (simp add: list_all2_same only_differing_fields_refl)
  show ?thesis
  proof (cases "filter (\<lambda>r. inventory_id r = i) ?inv")
    case Nil
    then have "updateInventoryTool u now i req d = (ToolNotFound, d)"
      by (simp add: updateInventoryTool_def)
    then show ?thesis using same by simp
  next
    case (Cons cur rest)
    then have "cur \<in> set (filter (\<lambda>r. inventory_id r = i) ?inv)" by simp
    then have cin: "cur \<in> set ?inv" and ci: "inventory_id cur = i" by simp_all
    obtain f0 h0 me where cs: "check_status req cur = (f0, h0, me)"
      by (cases "check_status req cur")
    have me: "me = None"
      using check_status_plain [OF ns1 ns2, of cur] cs by simp
    let ?f = "fst (check_fields req cur (f0, h0))"
    let ?g = "\<lambda>r. if inventory_id r = i then apply_fields ?f r else r"
    show ?thesis
    proof (cases "(role u = ''UnitAdmin'' \<and> factory_id u \<noteq> current_factory_id cur)
                  \<or> \<not> snd (check_fields req cur (f0, h0))")
      case True
      then have "snd (updateInventoryTool u now i req d) = d
          \<and> (\<forall>t e. fst (updateInventoryTool u now i req d) = Updated t e \<longrightarrow> e = None)"
        using Cons cs me by (auto simp: updateInventoryTool_def case_prod_beta)
      then show ?thesis using same by simp
    next
      case False
      then have U: "updateInventoryTool u now i req d
          = (Updated (apply_fields ?f cur) None, d\<lparr>centralized_inventory := map ?g ?inv\<rparr>)"
        using Cons cs me by (auto simp: updateInventoryTool_def case_prod_beta)
      have "\<forall>r\<in>set ?inv. ?P r (?g r)"
      proof
        fix r assume rin: "r \<in> set ?inv"
        show "?P r (?g r)"
        proof (cases "inventory_id r = i")
          case True
          then have "r = cur" using distinct_key_eq [OF dist rin cin] ci by simp
          then show ?thesis using True plain_update_row [OF ns1 ns2 cs] by simp
        next
          case False
          then show ?thesis by simp
        qed
      qed
      then have rows: "list_all2 ?P ?inv (map ?g ?inv)"
        by (simp add: list_all2_map2 list_all2_same)
      have "\<not> no_field_differs req cur"
        using False no_difference_no_changes [OF _ cs] by blast
      then have nd: "\<not> (\<forall>cur\<in>set ?inv. inventory_id cur = i \<longrightarrow> no_field_differs req cur)"
        using cin ci by blast
      have led: "tool_maintenance_history (snd (updateInventoryTool u now i req d))
                   = tool_maintenance_history d"
        and inv: "centralized_inventory (snd (updateInventoryTool u now i req d)) = map ?g ?inv"
        and ev: "\<forall>t e. fst (updateInventoryTool u now i req d) = Updated t e \<longrightarrow> e = None"
        using U by simp_all
      show ?thesis unfolding inv using led rows nd ev by blast
    qed
  qed
qed


theorem C10_plain_update_frame_witness:
  "distinct (map inventory_id (centralized_inventory serviced_db))
   \<and> tool_maintenance_history
        (snd (updateInventoryTool unit_admin 432000000 1
               (no_update\<lparr>upd_status := Some ''running'', upd_tool_name := Some ''T1''\<rparr>)
               serviced_db)) = tool_maintenance_history serviced_db
   \<and> map (\<lambda>r. (status r, tool_name r, number_of_regrinding r, number_of_resegmentation r,
                 current_tool_life r))
        (centralized_inventory
          (snd (updateInventoryTool unit_admin 432000000 1
                 (no_update\<lparr>upd_status := Some ''running'', upd_tool_name := Some ''T1''\<rparr>)
                 serviced_db))) = [(''running'', ''T1'', 2, 1, 10)]
   \<and> snd (updateInventoryTool unit_admin 432000000 1
              (no_update\<lparr>upd_tool_name := Some ''T1''\<rparr>) serviced_db) = serviced_db"
proof -
  let ?req = "no_update\<lparr>upd_status := Some ''running'', upd_tool_name := Some ''T1''\<rparr>"
  let ?req2 = "no_update\<lparr>upd_tool_name := Some ''T1''\<rparr>"
  have dist: "distinct (map inventory_id (centralized_inventory serviced_db))"
    by (simp add: serviced_db_rows)
  have ns: "upd_status ?req \<noteq> Some ''sent to madern for regrinding''"
           "upd_status ?req \<noteq> Some ''sent to madern for resegmentation''"
           "upd_status ?req2 \<noteq> Some ''sent to madern for regrinding''"
           "upd_status ?req2 \<noteq> Some ''sent to madern for resegmentation''"
    by (simp_all add: no_update_def)
  have nd: "\<forall>cur\<in>set (centralized_inventory serviced_db).
              inventory_id cur = 1 \<longrightarrow> no_field_differs ?req2 cur"
    by (simp add: serviced_db_rows no_field_differs_def no_update_def)
  have rows: "map (\<lambda>r. (status r, tool_name r, number_of_regrinding r,
                 number_of_resegmentation r, current_tool_life r))
        (centralized_inventory
          (snd (updateInventoryTool unit_admin 432000000 1 ?req serviced_db)))
       = [(''running'', ''T1'', 2, 1, 10)]"
    by (simp add: update_eval serviced_db_rows)
  show ?thesis
    using C10_plain_update_frame [OF ns(1,2) dist, of unit_admin 432000000 1]
      C10_plain_update_frame [OF ns(3,4) dist, of unit_admin 432000000 1] nd rows dist
    by blast
qed

subsection \<open>Active-tool resolution\<close>

lemma distinct_on_tool_subset: "set (distinct_on_tool xs) \<subseteq> set xs"
  by (induction xs rule: distinct_on_tool.induct) auto

lemma distinct_on_tool_keys: "ds_tool_id ` set (distinct_on_tool xs) = ds_tool_id ` set xs"
  by (induction xs rule: distinct_on_tool.induct) auto

lemma distinct_on_tool_latest:
  "sorted_wrt ds_before xs \<Longrightarrow> r \<in> set (distinct_on_tool xs) \<Longrightarrow> r' \<in> set xs
     \<Longrightarrow> ds_tool_id r' = ds_tool_id r \<Longrightarrow> ds_timestamp r' \<le> ds_timestamp r"
proof (induction xs arbitrary: r r' rule: distinct_on_tool.induct)
  case 1
  then show ?case by simp
next
  case (2 x)
  then show ?case by simp
next
  case (3 x y xs)
  have sx: "sorted_wrt ds_before (x # xs)" and sy: "sorted_wrt ds_before (y # xs)"
    using "3.prems"(1) by auto
  show ?case
  proof (cases "ds_tool_id x = ds_tool_id y")
    case True
    then have rin: "r \<in> set (distinct_on_tool (x # xs))" using "3.prems"(2) by simp
    show ?thesis
    proof (cases "r' = y")
      case True
      have "ds_timestamp x \<le> ds_timestamp r"
        using "3.IH"(1) [OF \<open>ds_tool_id x = ds_tool_id y\<close> sx rin, of x] "3.prems"(4) True
          \<open>ds_tool_id x = ds_tool_id y\<close> by simp
      moreover have "ds_timestamp y \<le> ds_timestamp x"
        using "3.prems"(1) \<open>ds_tool_id x = ds_tool_id y\<close> by simp
      ultimately show ?thesis using True by simp
    next
      case False
      then have "r' \<in> set (x # xs)" using "3.prems"(3) by auto
      then show ?thesis
        using "3.IH"(1) [OF \<open>ds_tool_id x = ds_tool_id y\<close> sx rin] "3.prems"(4) by blast
    qed
  next
    case False
    then have rin: "r = x \<or> r \<in> set (distinct_on_tool (y # xs))" using "3.prems"(2) by auto
    have lt: "ds_tool_id x < ds_tool_id y" using "3.prems"(1) False by auto
    have ge: "\<forall>z\<in>set (y # xs). ds_tool_id y \<le> ds_tool_id z" using sy by auto
    show ?thesis
    proof (cases "r = x")
      case True
      then show ?thesis using "3.prems" by auto
    next
      case nx: False
      then have r2: "r \<in> set (distinct_on_tool (y # xs))" using rin by simp
      then have "r \<in> set (y # xs)" using distinct_on_tool_subset by blast
      then have "ds_tool_id x < ds_tool_id r" using ge lt by fastforce
      then have "r' \<noteq> x" using "3.prems"(4) by auto
      then have "r' \<in> set (y # xs)" using "3.prems"(3) by auto
      then show ?thesis using "3.IH"(2) [OF False sy r2] "3.prems"(4) by blast
    qed
  qed
qed

lemma distinct_on_tool_distinct:
  "sorted_wrt ds_before xs \<Longrightarrow> distinct (map ds_tool_id (distinct_on_tool xs))"
proof (induction xs rule: distinct_on_tool.induct)
  case 1
  then show ?case by simp
next
  case (2 x)
  then show ?case by simp
next
  case (3 x y xs)
  have sx: "sorted_wrt ds_before (x # xs)" and sy: "sorted_wrt ds_before (y # xs)"
    using "3.prems" by auto
  show ?case
  proof (cases "ds_tool_id x = ds_tool_id y")
    case True
    then show ?thesis using "3.IH"(1) sx by simp
  next
    case False
    have lt: "ds_tool_id x < ds_tool_id y" using "3.prems" False by auto
    have ge: "\<forall>z\<in>set (y # xs). ds_tool_id y \<le> ds_tool_id z" using sy by auto
    have "\<forall>z\<in>set (distinct_on_tool (y # xs)). ds_tool_id x < ds_tool_id z"
      using ge lt distinct_on_tool_subset [of "y # xs"] by fastforce
    then have "ds_tool_id x \<notin> ds_tool_id ` set (distinct_on_tool (y # xs))" by auto
    then show ?thesis using "3.IH"(2) [OF False sy] False by simp
  qed
qed


text \<open>
  C3 (as amended). Whatever order the executor gives to records equal on the sort key,
  the resolution returns exactly one record per tool that has records, and that record
  has the greatest timestamp among the records of its tool; which one of several records
  sharing that greatest timestamp is returned is not fixed. For the stream (t=1,
  in_drive), (t=5, removed), (t=3, in_drive) of one tool the result is the t=5 removed
  record.
\<close>

theorem C3_latest_per_tool:
  assumes ob: "order_by_tool_ts rows srt"
  shows "(\<forall>k\<in>ds_tool_id ` set rows.
            length (filter (\<lambda>r. ds_tool_id r = k) (distinct_on_tool srt)) = 1)
    \<and> ds_tool_id ` set (distinct_on_tool srt) = ds_tool_id ` set rows
    \<and> (\<forall>r\<in>set (distinct_on_tool srt).
          r \<in> set rows
          \<and> (\<forall>r'\<in>set rows. ds_tool_id r' = ds_tool_id r
                \<longrightarrow> ds_timestamp r' \<le> ds_timestamp r))
    \<and> (\<forall>k m1 m2 m3.
          rows = [\<lparr>ds_tool_id = k, ds_machine_id = m1, ds_status = ''in_drive'',
                   ds_timestamp = 1\<rparr>,
                  \<lparr>ds_tool_id = k, ds_machine_id = m2, ds_status = ''removed'',
                   ds_timestamp = 5\<rparr>,
                  \<lparr>ds_tool_id = k, ds_machine_id = m3, ds_status = ''in_drive'',
                   ds_timestamp = 3\<rparr>]
          \<longrightarrow> distinct_on_tool srt
                = [\<lparr>ds_tool_id = k, ds_machine_id = m2, ds_status = ''removed'',
                    ds_timestamp = 5\<rparr>])"
proof -
  have ms: "mset srt = mset rows" and so: "sorted_wrt ds_before srt"
    using ob by (simp_all add: order_by_tool_ts_def)
  have se: "set srt = set rows" using ms by (rule mset_eq_setD)
  let ?res = "distinct_on_tool srt"
  have keys: "ds_tool_id ` set ?res = ds_tool_id ` set rows"
    using distinct_on_tool_keys [of srt] se by simp
  have dist: "distinct (map ds_tool_id ?res)" using distinct_on_tool_distinct [OF so] .
  have one: "\<forall>k\<in>ds_tool_id ` set rows. length (filter (\<lambda>r. ds_tool_id r = k) ?res) = 1"
  proof
    fix k assume "k \<in> ds_tool_id ` set rows"
    then have "k \<in> ds_tool_id ` set ?res" using keys by simp
    then obtain x where x: "x \<in> set ?res" "ds_tool_id x = k" by (auto simp: image_iff)
    show "length (filter (\<lambda>r. ds_tool_id r = k) ?res) = 1"
      using filter_key_single [OF dist x(1)] x(2) by simp
  qed
  have latest: "\<forall>r\<in>set ?res. r \<in> set rows
          \<and> (\<forall>r'\<in>set rows. ds_tool_id r' = ds_tool_id r
                \<longrightarrow> ds_timestamp r' \<le> ds_timestamp r)"
    using distinct_on_tool_subset [of srt] distinct_on_tool_latest [OF so] se by blast
  have ex: "\<forall>k m1 m2 m3.
          rows = [\<lparr>ds_tool_id = k, ds_machine_id = m1, ds_status = ''in_drive'',
                   ds_timestamp = 1\<rparr>,
                  \<lparr>ds_tool_id = k, ds_machine_id = m2, ds_status = ''removed'',
                   ds_timestamp = 5\<rparr>,
                  \<lparr>ds_tool_id = k, ds_machine_id = m3, ds_status = ''in_drive'',
                   ds_timestamp = 3\<rparr>]
          \<longrightarrow> ?res = [\<lparr>ds_tool_id = k, ds_machine_id = m2, ds_status = ''removed'',
                       ds_timestamp = 5\<rparr>]"
  proof (intro allI impI)
    fix k m1 m2 m3
    let ?b = "\<lparr>ds_tool_id = k, ds_machine_id = m2, ds_status = ''removed'',
               ds_timestamp = 5\<rparr>"
    assume r: "rows = [\<lparr>ds_tool_id = k, ds_machine_id = m1, ds_status = ''in_drive'',
                   ds_timestamp = 1\<rparr>, ?b,
                  \<lparr>ds_tool_id = k, ds_machine_id = m3, ds_status = ''in_drive'',
                   ds_timestamp = 3\<rparr>]"
    have allk: "\<forall>x\<in>set ?res. ds_tool_id x = k"
      using keys r by auto
    have only: "\<forall>x\<in>set ?res. x = ?b"
    proof
      fix x assume xin: "x \<in> set ?res"
      have "x \<in> set rows" and "ds_timestamp ?b \<le> ds_timestamp x"
        using latest xin allk r by auto
      then show "x = ?b" using r by auto
    qed
    have "filter (\<lambda>x. ds_tool_id x = k) ?res = ?res" using allk by (simp add: filter_id_conv)
    then have "length ?res = 1" using one r by simp
    then obtain x where "?res = [x]" by (cases ?res) auto
    then show "?res = [?b]" using only by simp
  qed
  show ?thesis using one keys latest ex by blast
qed


lemma resolved_latest:
  assumes "order_by_tool_ts rows srt" and "r \<in> set (distinct_on_tool srt)"
  shows "r \<in> set rows"
    and "\<forall>r'\<in>set rows. ds_tool_id r' = ds_tool_id r \<longrightarrow> ds_timestamp r' \<le> ds_timestamp r"
proof -
  have ms: "mset srt = mset rows" and so: "sorted_wrt ds_before srt"
    using assms(1) by (simp_all add: order_by_tool_ts_def)
  have se: "set srt = set rows" using ms by (rule mset_eq_setD)
  show "r \<in> set rows" using distinct_on_tool_subset [of srt] assms(2) se by blast
  show "\<forall>r'\<in>set rows. ds_tool_id r' = ds_tool_id r \<longrightarrow> ds_timestamp r' \<le> ds_timestamp r"
    using distinct_on_tool_latest [OF so assms(2)] se by blast
qed

lemma active_join_member:
  "(lts, t, m) \<in> set (active_join srt tools machines factoryId toolType)
     \<Longrightarrow> lts \<in> set (distinct_on_tool srt) \<and> ds_status lts = ''in_drive''
         \<and> t \<in> set tools \<and> t_tool_id t = ds_tool_id lts
         \<and> toUpperCase (t_tool_type t) = toUpperCase toolType"
  by (auto simp: active_join_def split: if_splits)

lemma target_tool_member:
  "(lsom, t) \<in> set (target_tool srt tools toolType)
     \<Longrightarrow> lsom \<in> set (distinct_on_tool srt) \<and> ds_status lsom = ''in_drive''
         \<and> t \<in> set tools \<and> t_tool_id t = ds_tool_id lsom
         \<and> toUpperCase (t_tool_type t) = toUpperCase toolType"
  by (auto simp: target_tool_def split: if_splits)

text \<open>
  C9. The status and type tests are applied to the resolved records only: every tool
  reported by the active-machine join or chosen as target tool of a machine has, as its
  resolved record, a record of greatest timestamp among all records of its key (tool, or
  tool on that machine) with status in_drive. So a tool whose latest records are all
  removed is never reported, whatever earlier in_drive records it has.
\<close>

theorem C9_filter_after_resolution:
  assumes ob: "order_by_tool_ts rows srt"
    and ob2: "order_by_tool_ts (on_machine machineId rows) srt2"
  shows "(\<forall>(lts, t, m)\<in>set (active_join srt tools machines factoryId toolType).
            lts \<in> set rows \<and> ds_status lts = ''in_drive''
            \<and> (\<forall>r'\<in>set rows. ds_tool_id r' = ds_tool_id lts
                  \<longrightarrow> ds_timestamp r' \<le> ds_timestamp lts))
    \<and> (\<forall>(lsom, t)\<in>set (target_tool srt2 tools toolType).
            lsom \<in> set rows \<and> ds_machine_id lsom = machineId \<and> ds_status lsom = ''in_drive''
            \<and> (\<forall>r'\<in>set rows. ds_machine_id r' = machineId \<and> ds_tool_id r' = ds_tool_id lsom
                  \<longrightarrow> ds_timestamp r' \<le> ds_timestamp lsom))
    \<and> (\<forall>k. (\<forall>r\<in>set rows.
                 ds_tool_id r = k
                 \<and> (\<forall>r'\<in>set rows. ds_tool_id r' = k \<longrightarrow> ds_timestamp r' \<le> ds_timestamp r)
                 \<longrightarrow> ds_status r = ''removed'')
            \<longrightarrow> k \<notin> (\<lambda>(lts, t, m). ds_tool_id lts)
                       ` set (active_join srt tools machines factoryId toolType))
    \<and> (\<forall>k. (\<forall>r\<in>set rows.
                 ds_machine_id r = machineId \<and> ds_tool_id r = k
                 \<and> (\<forall>r'\<in>set rows. ds_machine_id r' = machineId \<and> ds_tool_id r' = k
                       \<longrightarrow> ds_timestamp r' \<le> ds_timestamp r)
                 \<longrightarrow> ds_status r = ''removed'')
            \<longrightarrow> k \<notin> (\<lambda>(lsom, t). ds_tool_id lsom) ` set (target_tool srt2 tools toolType))"
proof -
  have a: "\<forall>(lts, t, m)\<in>set (active_join srt tools machines factoryId toolType).
            lts \<in> set rows \<and> ds_status lts = ''in_drive''
            \<and> (\<forall>r'\<in>set rows. ds_tool_id r' = ds_tool_id lts
                  \<longrightarrow> ds_timestamp r' \<le> ds_timestamp lts)"
    using active_join_member resolved_latest [OF ob] by fast
  have b: "\<forall>(lsom, t)\<in>set (target_tool srt2 tools toolType).
            lsom \<in> set rows \<and> ds_machine_id lsom = machineId \<and> ds_status lsom = ''in_drive''
            \<and> (\<forall>r'\<in>set rows. ds_machine_id r' = machineId \<and> ds_tool_id r' = ds_tool_id lsom
                  \<longrightarrow> ds_timestamp r' \<le> ds_timestamp lsom)"
  proof (intro ballI, clarify)
    fix lsom t assume m: "(lsom, t) \<in> set (target_tool srt2 tools toolType)"
    note tm = target_tool_member [OF m]
    from tm have r: "lsom \<in> set (distinct_on_tool srt2)" by simp
    note l = resolved_latest [OF ob2 r]
    show "lsom \<in> set rows \<and> ds_machine_id lsom = machineId \<and> ds_status lsom = ''in_drive''
            \<and> (\<forall>r'\<in>set rows. ds_machine_id r' = machineId \<and> ds_tool_id r' = ds_tool_id lsom
                  \<longrightarrow> ds_timestamp r' \<le> ds_timestamp lsom)"
      using tm l by (auto simp: on_machine_def)
  qed
  have c: "\<forall>k. (\<forall>r\<in>set rows.
                 ds_tool_id r = k
                 \<and> (\<forall>r'\<in>set rows. ds_tool_id r' = k \<longrightarrow> ds_timestamp r' \<le> ds_timestamp r)
                 \<longrightarrow> ds_status r = ''removed'')
            \<longrightarrow> k \<notin> (\<lambda>(lts, t, m). ds_tool_id lts)
                       ` set (active_join srt tools machines factoryId toolType)"
  proof (intro allI impI notI)
    fix k
    assume rm: "\<forall>r\<in>set rows.
                 ds_tool_id r = k
                 \<and> (\<forall>r'\<in>set rows. ds_tool_id r' = k \<longrightarrow> ds_timestamp r' \<le> ds_timestamp r)
                 \<longrightarrow> ds_status r = ''removed''"
      and "k \<in> (\<lambda>(lts, t, m). ds_tool_id lts)
                  ` set (active_join srt tools machines factoryId toolType)"
    then obtain lts t m where
      m: "(lts, t, m) \<in> set (active_join srt tools machines factoryId toolType)"
      and k: "ds_tool_id lts = k" by auto
    from a m have "lts \<in> set rows" "ds_status lts = ''in_drive''"
      "\<forall>r'\<in>set rows. ds_tool_id r' = ds_tool_id lts \<longrightarrow> ds_timestamp r' \<le> ds_timestamp lts"
      by auto
    with rm k have "ds_status lts = ''removed''" by blast
    with \<open>ds_status lts = ''in_drive''\<close> show False by simp
  qed
  have d: "\<forall>k. (\<forall>r\<in>set rows.
                 ds_machine_id r = machineId \<and> ds_tool_id r = k
                 \<and> (\<forall>r'\<in>set rows. ds_machine_id r' = machineId \<and> ds_tool_id r' = k
                       \<longrightarrow> ds_timestamp r' \<le> ds_timestamp r)
                 \<longrightarrow> ds_status r = ''removed'')
            \<longrightarrow> k \<notin> (\<lambda>(lsom, t). ds_tool_id lsom) ` set (target_tool srt2 tools toolType)"
  proof (intro allI impI notI)
    fix k
    assume rm: "\<forall>r\<in>set rows.
                 ds_machine_id r = machineId \<and> ds_tool_id r = k
                 \<and> (\<forall>r'\<in>set rows. ds_machine_id r' = machineId \<and> ds_tool_id r' = k
                       \<longrightarrow> ds_timestamp r' \<le> ds_timestamp r)
                 \<longrightarrow> ds_status r = ''removed''"
      and "k \<in> (\<lambda>(lsom, t). ds_tool_id lsom) ` set (target_tool srt2 tools toolType)"
    then obtain lsom t where
      m: "(lsom, t) \<in> set (target_tool srt2 tools toolType)"
      and k: "ds_tool_id lsom = k" by auto
    from b m have "lsom \<in> set rows" "ds_machine_id lsom = machineId"
      "ds_status lsom = ''in_drive''"
      "\<forall>r'\<in>set rows. ds_machine_id r' = machineId \<and> ds_tool_id r' = ds_tool_id lsom
          \<longrightarrow> ds_timestamp r' \<le> ds_timestamp lsom"
      by auto
    with rm k have "ds_status lsom = ''removed''" by blast
    with \<open>ds_status lsom = ''in_drive''\<close> show False by simp
  qed
  show ?thesis using a b c d by blast
qed

lemma sample_order: "order_by_tool_ts sample_stream sample_stream_sorted"
  by (simp add: order_by_tool_ts_def sample_stream_def sample_stream_sorted_def ds_rec_def)

lemma tied_order: "order_by_tool_ts tied_stream tied_stream"
  by (simp add: order_by_tool_ts_def tied_stream_def ds_rec_def)

theorem C3_tie_counterexample:
  "order_by_tool_ts tied_stream tied_stream
   \<and> distinct_on_tool tied_stream = [ds_rec 5 ''in_drive'']
   \<and> spec_resolveActive tied_stream 7 = Some (ds_rec 5 ''removed'')"
  by (simp add: order_by_tool_ts_def tied_stream_def ds_rec_def spec_resolveActive_def)


theorem C3_latest_per_tool_witness:
  "order_by_tool_ts sample_stream sample_stream_sorted
   \<and> distinct_on_tool sample_stream_sorted = [ds_rec 5 ''removed'']"
proof -
  have "\<forall>k m1 m2 m3.
          sample_stream = [\<lparr>ds_tool_id = k, ds_machine_id = m1, ds_status = ''in_drive'',
                   ds_timestamp = 1\<rparr>,
                  \<lparr>ds_tool_id = k, ds_machine_id = m2, ds_status = ''removed'',
                   ds_timestamp = 5\<rparr>,
                  \<lparr>ds_tool_id = k, ds_machine_id = m3, ds_status = ''in_drive'',
                   ds_timestamp = 3\<rparr>]
          \<longrightarrow> distinct_on_tool sample_stream_sorted
                = [\<lparr>ds_tool_id = k, ds_machine_id = m2, ds_status = ''removed'',
                    ds_timestamp = 5\<rparr>]"
    using C3_latest_per_tool [OF sample_order] by blast
  then have "distinct_on_tool sample_stream_sorted = [ds_rec 5 ''removed'']"
    by (simp add: sample_stream_def ds_rec_def)
  then show ?thesis using sample_order by simp
qed

theorem C9_filter_after_resolution_witness:
  "order_by_tool_ts sample_stream sample_stream_sorted
   \<and> order_by_tool_ts (on_machine 2 sample_stream) sample_stream_sorted
   \<and> 7 \<notin> (\<lambda>(lts, t, m). ds_tool_id lts)
             ` set (active_join sample_stream_sorted sample_tools sample_machines None
                      ''cutting'')
   \<and> 7 \<notin> (\<lambda>(lsom, t). ds_tool_id lsom)
             ` set (target_tool sample_stream_sorted sample_tools ''cutting'')
   \<and> distinct_on_tool (filter (\<lambda>r. ds_status r = ''in_drive'') sample_stream_sorted)
       = [ds_rec 3 ''in_drive'']"
proof -
  have om: "on_machine 2 sample_stream = sample_stream"
    by (simp add: on_machine_def sample_stream_def ds_rec_def)
  have ob2: "order_by_tool_ts (on_machine 2 sample_stream) sample_stream_sorted"
    using sample_order om by simp
  have rm: "\<forall>r\<in>set sample_stream.
                 ds_tool_id r = 7
                 \<and> (\<forall>r'\<in>set sample_stream. ds_tool_id r' = 7
                       \<longrightarrow> ds_timestamp r' \<le> ds_timestamp r)
                 \<longrightarrow> ds_status r = ''removed''"
    by (simp add: sample_stream_def ds_rec_def)
  have rm2: "\<forall>r\<in>set sample_stream.
                 ds_machine_id r = 2 \<and> ds_tool_id r = 7
                 \<and> (\<forall>r'\<in>set sample_stream. ds_machine_id r' = 2 \<and> ds_tool_id r' = 7
                       \<longrightarrow> ds_timestamp r' \<le> ds_timestamp r)
                 \<longrightarrow> ds_status r = ''removed''"
    by (simp add: sample_stream_def ds_rec_def)
  have pre: "distinct_on_tool (filter (\<lambda>r. ds_status r = ''in_drive'') sample_stream_sorted)
       = [ds_rec 3 ''in_drive'']"
    by (simp add: sample_stream_sorted_def ds_rec_def)
  from C9_filter_after_resolution [OF sample_order ob2, of sample_tools sample_machines None
      "''cutting''"] rm rm2
  have "7 \<notin> (\<lambda>(lts, t, m). ds_tool_id lts)
             ` set (active_join sample_stream_sorted sample_tools sample_machines None
                      ''cutting'')"
    and "7 \<notin> (\<lambda>(lsom, t). ds_tool_id lsom)
             ` set (target_tool sample_stream_sorted sample_tools ''cutting'')"
    by blast+
  then show ?thesis using sample_order ob2 pre by simp
qed

subsection \<open>The counters against the ledger\<close>

lemma count_events_append:
  "count_events (xs @ ys) t e = count_events xs t e + count_events ys t e"
  by (simp add: count_events_def)

lemma count_events_none:
  "\<forall>h\<in>set xs. tmh_tool_id h \<noteq> t \<Longrightarrow> count_events xs t e = 0"
  by (simp add: count_events_def filter_empty_conv)

lemma count_events_nonneg: "0 \<le> count_events xs t e"
  by (simp add: count_events_def)

lemma create_preserves:
  assumes k: "keys_ok d" and l: "ledger_ok d" and c: "counters_match d"
    and np: "no_preset_counters req"
  shows "keys_ok (snd (createInventoryTool u req d))
       \<and> ledger_ok (snd (createInventoryTool u req d))
       \<and> counters_match (snd (createInventoryTool u req d))"
proof (cases "validate_tool u (factories d) (crt_material_id req) (crt_batch_id req)
             (crt_tool_name req) (crt_type req) (crt_current_factory_id req)")
  case (Inl err)
  then show ?thesis using k l c by (simp add: createInventoryTool_def)
next
  case (Inr f)
  have fresh: "\<forall>h\<in>set (tool_maintenance_history d). tmh_tool_id h \<noteq> next_tool_id d"
    using l by (auto simp: ledger_ok_def list_all_iff)
  have z: "count_events (tool_maintenance_history d) (next_tool_id d) e = 0" for e
    using count_events_none [OF fresh] .
  show ?thesis
    using Inr k l c np z
    by (auto simp: createInventoryTool_def Let_def keys_ok_def ledger_ok_def counters_match_def
          no_preset_counters_def list_all_iff)
qed


lemma replay_ledger:
  "\<exists>news. tool_maintenance_history (snd (replay_events tid now es p n d))
              = tool_maintenance_history d @ news
     \<and> map history_id news = [next_history_id d ..< next_history_id d + length news]
     \<and> next_history_id (snd (replay_events tid now es p n d))
         = next_history_id d + length news
     \<and> (\<forall>h\<in>set news. tmh_tool_id h = tid \<and> \<not> is_deleted h)
     \<and> map event_type news = filter (\<lambda>t. t \<noteq> ''initial'') (map ev_event_type es)"
proof (induction es arbitrary: p n d)
  case Nil
  show ?case by simp
next
  case (Cons e es)
  show ?case
  proof (cases "ev_event_type e = ''initial''")
    case True
    then show ?thesis using Cons.IH [of p n d] by simp
  next
    case False
    let ?date = "case ev_date e of None \<Rightarrow> now | Some ts \<Rightarrow> if ts \<noteq> 0 then ts else now"
    let ?cur = "case ev_life_value e of None \<Rightarrow> 0 | Some v \<Rightarrow> v"
    let ?seq = "case ev_sequence e of None \<Rightarrow> 1 | Some q \<Rightarrow> if q \<noteq> 0 then q else 1"
    let ?h = "\<lparr>history_id = next_history_id d, tmh_tool_id = tid,
               event_type = ev_event_type e, tool_life_at_event = ?cur,
               life_consumed = ?cur - p, hlp_count_at_event = 0, event_sequence = ?seq,
               is_deleted = False, tmh_timestamp = ?date\<rparr>"
    let ?d2 = "d\<lparr>tool_maintenance_history := tool_maintenance_history d @ [?h],
                 next_history_id := Suc (next_history_id d),
                 daily_tool_summary :=
                   dailySummaryInsert tid 1 (dateString ?date) (?cur - p) 0
                     (daily_tool_summary d)\<rparr>"
    have step: "replay_events tid now (e # es) p n d = replay_events tid now es ?cur (Suc n) ?d2"
      using False by (simp add: Let_def insert_history_def)
    from Cons.IH [of ?cur "Suc n" ?d2] obtain news where
      a: "tool_maintenance_history (snd (replay_events tid now es ?cur (Suc n) ?d2))
            = (tool_maintenance_history d @ [?h]) @ news"
      and b: "map history_id news
            = [Suc (next_history_id d) ..< Suc (next_history_id d) + length news]"
      and c: "next_history_id (snd (replay_events tid now es ?cur (Suc n) ?d2))
            = Suc (next_history_id d) + length news"
      and dd: "\<forall>h\<in>set news. tmh_tool_id h = tid \<and> \<not> is_deleted h"
      and ee: "map event_type news = filter (\<lambda>t. t \<noteq> ''initial'') (map ev_event_type es)"
      by auto
    have ids: "map history_id (?h # news)
                 = [next_history_id d ..< next_history_id d + length (?h # news)]"
      using b by (simp del: upt_Suc add: upt_conv_Cons)
    show ?thesis
      unfolding step
      using a ids c dd ee False
      by (intro exI [of _ "?h # news"]) simp
  qed
qed

lemma count_events_new:
  assumes "\<forall>h\<in>set news. tmh_tool_id h = tid \<and> \<not> is_deleted h"
    and "map event_type news = filter (\<lambda>t. t \<noteq> ''initial'') (map ev_event_type es)"
    and "e \<noteq> ''initial''"
  shows "count_events news tid e = int (length (filter (\<lambda>x. ev_event_type x = e) es))"
proof -
  have "filter (\<lambda>h. tmh_tool_id h = tid \<and> event_type h = e \<and> \<not> is_deleted h) news
          = filter (\<lambda>h. event_type h = e) news"
    using assms(1) by (auto intro: filter_cong)
  then have "count_events news tid e = int (length (filter (\<lambda>t. t = e) (map event_type news)))"
    by (simp add: count_events_def filter_map comp_def)
  also have "\<dots> = int (length (filter (\<lambda>t. t = e)
                      (filter (\<lambda>t. t \<noteq> ''initial'') (map ev_event_type es))))"
    using assms(2) by simp
  also have "\<dots> = int (length (filter (\<lambda>t. t = e) (map ev_event_type es)))"
  proof -
    have "(\<lambda>t. t \<noteq> ''initial'' \<and> t = e) = (\<lambda>t. t = e)" using assms(3) by auto
    then show ?thesis by simp
  qed
  also have "\<dots> = int (length (filter (\<lambda>x. ev_event_type x = e) es))"
    by (simp add: filter_map comp_def)
  finally show ?thesis .
qed


lemma import_tool_preserves:
  assumes k: "keys_ok d" and l: "ledger_ok d" and c: "counters_match d"
    and kn: "known_event_types t"
  shows "keys_ok (snd (import_tool u now i t (r, d)))
       \<and> ledger_ok (snd (import_tool u now i t (r, d)))
       \<and> counters_match (snd (import_tool u now i t (r, d)))"
proof (cases "validate_import u (factories d) t")
  case (Inl err)
  then show ?thesis using k l c by (simp add: import_tool_def)
next
  case (Inr f)
  let ?tid = "next_tool_id d"
  let ?es = "imp_lifecycle_events t"
  obtain row d1 where ins: "insert_historical_tool f t d = (row, d1)"
    by (cases "insert_historical_tool f t d")
  have row: "tool_id row = ?tid" "inventory_id row = next_inventory_id d"
    "number_of_regrinding row = regrindCount ?es"
    "number_of_resegmentation row = resegCount ?es"
    and d1: "centralized_inventory d1 = centralized_inventory d @ [row]"
    "tool_maintenance_history d1 = tool_maintenance_history d"
    "next_tool_id d1 = Suc ?tid" "next_inventory_id d1 = Suc (next_inventory_id d)"
    "next_history_id d1 = next_history_id d"
    using ins by (auto simp: insert_historical_tool_def Let_def)
  let ?d2 = "snd (replay_events ?tid now ?es 0 0 d1)"
  have res: "snd (import_tool u now i t (r, d)) = ?d2"
    using Inr ins row(1) by (simp add: import_tool_def case_prod_beta)
  from replay_ledger [of ?tid now ?es 0 0 d1] obtain news where
    led: "tool_maintenance_history ?d2 = tool_maintenance_history d @ news"
    and ids: "map history_id news = [next_history_id d ..< next_history_id d + length news]"
    and nh: "next_history_id ?d2 = next_history_id d + length news"
    and own: "\<forall>h\<in>set news. tmh_tool_id h = ?tid \<and> \<not> is_deleted h"
    and tys: "map event_type news = filter (\<lambda>t. t \<noteq> ''initial'') (map ev_event_type ?es)"
    using d1 by auto
  have fr: "centralized_inventory ?d2 = centralized_inventory d @ [row]"
    "next_tool_id ?d2 = Suc ?tid" "next_inventory_id ?d2 = Suc (next_inventory_id d)"
    using replay_events_frame [of ?tid now ?es 0 0 d1] d1 by simp_all
  have oldk: "\<forall>x\<in>set (centralized_inventory d).
                 inventory_id x < next_inventory_id d \<and> tool_id x < ?tid"
    and oldh: "\<forall>h\<in>set (tool_maintenance_history d). history_id h < next_history_id d"
    and dk: "distinct (map inventory_id (centralized_inventory d))"
      "distinct (map tool_id (centralized_inventory d))"
      "distinct (map history_id (tool_maintenance_history d))"
    using k by (auto simp: keys_ok_def list_all_iff)
  have oldl: "\<forall>h\<in>set (tool_maintenance_history d).
                 event_type h \<in> set [''regrinding'', ''resegmentation'']
                 \<and> \<not> is_deleted h \<and> tmh_tool_id h < ?tid"
    using l by (auto simp: ledger_ok_def list_all_iff)
  have newids: "\<forall>h\<in>set news. next_history_id d \<le> history_id h
                  \<and> history_id h < next_history_id d + length news"
  proof
    fix h assume "h \<in> set news"
    then have "history_id h \<in> set (map history_id news)" by simp
    then show "next_history_id d \<le> history_id h
                  \<and> history_id h < next_history_id d + length news"
      unfolding ids by simp
  qed
  have dn: "distinct (map history_id news)" unfolding ids by simp
  have dj: "\<forall>a\<in>set (tool_maintenance_history d). \<forall>b\<in>set news.
               history_id a \<noteq> history_id b"
    using oldh newids by fastforce
  have up: "\<forall>h\<in>set news. history_id h < next_history_id d + length news"
    using newids by simp
  have K: "keys_ok ?d2"
    unfolding keys_ok_def fr led nh
    using dk oldk oldh dj up dn row
    by (auto simp: list_all_iff)
  have newty: "\<forall>h\<in>set news. event_type h \<in> set [''regrinding'', ''resegmentation'']"
  proof
    fix h assume "h \<in> set news"
    then have "event_type h \<in> set (map event_type news)" by simp
    then have "event_type h \<in> set (map ev_event_type ?es)" "event_type h \<noteq> ''initial''"
      unfolding tys by auto
    then show "event_type h \<in> set [''regrinding'', ''resegmentation'']"
      using kn by (auto simp: known_event_types_def list_all_iff)
  qed
  have L: "ledger_ok ?d2"
    unfolding ledger_ok_def fr led
    using oldl own newty by (auto simp: list_all_iff)
  have fresh: "\<forall>h\<in>set (tool_maintenance_history d). tmh_tool_id h \<noteq> ?tid"
    using oldl by auto
  have cnew: "count_events news ?tid ''regrinding'' = regrindCount ?es"
    "count_events news ?tid ''resegmentation'' = resegCount ?es"
    using count_events_new [OF own tys] by (simp_all add: regrindCount_def resegCount_def)
  have cold: "\<forall>x\<in>set (centralized_inventory d). \<forall>e. count_events news (tool_id x) e = 0"
  proof (intro ballI allI)
    fix x e assume "x \<in> set (centralized_inventory d)"
    then have "tool_id x \<noteq> ?tid" using oldk by auto
    then have "\<forall>h\<in>set news. tmh_tool_id h \<noteq> tool_id x" using own by auto
    then show "count_events news (tool_id x) e = 0" by (rule count_events_none)
  qed
  have C: "counters_match ?d2"
    unfolding counters_match_def fr led
    using c cnew cold row count_events_none [OF fresh]
    by (auto simp: counters_match_def list_all_iff count_events_append)
  show ?thesis unfolding res using K L C by simp
qed

lemma import_loop_preserves:
  "keys_ok d \<Longrightarrow> ledger_ok d \<Longrightarrow> counters_match d \<Longrightarrow> list_all known_event_types ts
     \<Longrightarrow> keys_ok (snd (import_loop u now i ts (r, d)))
         \<and> ledger_ok (snd (import_loop u now i ts (r, d)))
         \<and> counters_match (snd (import_loop u now i ts (r, d)))"
proof (induction ts arbitrary: i r d)
  case Nil
  then show ?case by simp
next
  case (Cons t ts)
  obtain r1 d1 where s: "import_tool u now i t (r, d) = (r1, d1)"
    by (cases "import_tool u now i t (r, d)")
  have "keys_ok d1 \<and> ledger_ok d1 \<and> counters_match d1"
    using import_tool_preserves [of d t u now i r] Cons.prems s by simp
  then show ?case using Cons.IH [of d1 "Suc i" r1] Cons.prems(4) s by simp
qed

lemma import_preserves:
  assumes "keys_ok d" and "ledger_ok d" and "counters_match d"
    and "list_all known_event_types tools"
  shows "keys_ok (snd (createHistoricalTools u now tools d))
       \<and> ledger_ok (snd (createHistoricalTools u now tools d))
       \<and> counters_match (snd (createHistoricalTools u now tools d))"
  using assms import_loop_preserves [OF assms, of u now 0 "\<lparr>success = [], errors = []\<rparr>"]
  by (simp add: createHistoricalTools_def case_prod_beta)


lemma update_shape:
  "snd (updateInventoryTool u now i req d) = d
   \<or> (\<exists>cur rest f.
         filter (\<lambda>r. inventory_id r = i) (centralized_inventory d) = cur # rest
       \<and> fu_number_of_regrinding f = None \<and> fu_number_of_resegmentation f = None
       \<and> snd (updateInventoryTool u now i req d)
           = d\<lparr>centralized_inventory :=
                 map (\<lambda>r. if inventory_id r = i then apply_fields f r else r)
                   (centralized_inventory d)\<rparr>)
   \<or> (\<exists>t1 h d1. updateInventoryTool u now i req d = (Updated t1 (Some h), d1))"
proof (cases "filter (\<lambda>r. inventory_id r = i) (centralized_inventory d)")
  case Nil
  then show ?thesis by (simp add: updateInventoryTool_def)
next
  case (Cons cur rest)
  obtain f0 h0 me where cs: "check_status req cur = (f0, h0, me)"
    by (cases "check_status req cur")
  let ?f = "fst (check_fields req cur (f0, h0))"
  show ?thesis
  proof (cases me)
    case None
    have "fu_number_of_regrinding f0 = None \<and> fu_number_of_resegmentation f0 = None"
      using cs None
      by (auto simp: check_status_def Let_def no_fields_def split: option.splits if_splits)
    then have n: "fu_number_of_regrinding ?f = None" "fu_number_of_resegmentation ?f = None"
      by (simp_all add: check_fields_frame)
    have "snd (updateInventoryTool u now i req d) = d
        \<or> snd (updateInventoryTool u now i req d)
           = d\<lparr>centralized_inventory :=
                 map (\<lambda>r. if inventory_id r = i then apply_fields ?f r else r)
                   (centralized_inventory d)\<rparr>"
      using Cons cs None by (auto simp: updateInventoryTool_def case_prod_beta)
    then show ?thesis using Cons n by blast
  next
    case (Some ev)
    have "snd (updateInventoryTool u now i req d) = d
        \<or> (\<exists>t1 h d1. updateInventoryTool u now i req d = (Updated t1 (Some h), d1))"
      using Cons cs Some
      by (auto simp: updateInventoryTool_def case_prod_beta Let_def)
    then show ?thesis by blast
  qed
qed

lemma update_preserves:
  assumes k: "keys_ok d" and l: "ledger_ok d" and c: "counters_match d"
  shows "keys_ok (snd (updateInventoryTool u now i req d))
       \<and> ledger_ok (snd (updateInventoryTool u now i req d))
       \<and> counters_match (snd (updateInventoryTool u now i req d))"
proof -
  let ?inv = "centralized_inventory d"
  let ?led = "tool_maintenance_history d"
  from update_shape [of u now i req d]
  consider (same) "snd (updateInventoryTool u now i req d) = d"
    | (plain) cur rest f where
        "filter (\<lambda>r. inventory_id r = i) ?inv = cur # rest"
        "fu_number_of_regrinding f = None" "fu_number_of_resegmentation f = None"
        "snd (updateInventoryTool u now i req d)
           = d\<lparr>centralized_inventory :=
                 map (\<lambda>r. if inventory_id r = i then apply_fields f r else r) ?inv\<rparr>"
    | (event) t1 h d1 where "updateInventoryTool u now i req d = (Updated t1 (Some h), d1)"
    by blast
  then show ?thesis
  proof cases
    case same
    then show ?thesis using k l c by simp
  next
    case plain
    define g where "g = (\<lambda>r. if inventory_id r = i then apply_fields f r else r)"
    have g: "\<And>r. tool_id (g r) = tool_id r" "\<And>r. inventory_id (g r) = inventory_id r"
      "\<And>r. number_of_regrinding (g r) = number_of_regrinding r"
      "\<And>r. number_of_resegmentation (g r) = number_of_resegmentation r"
      using plain(2,3) by (simp_all add: g_def apply_fields_sel)
    have res: "snd (updateInventoryTool u now i req d)
                 = d\<lparr>centralized_inventory := map g ?inv\<rparr>"
      using plain(4) by (simp add: g_def)
    show ?thesis
      unfolding res
      using k l c
      by (simp add: keys_ok_def ledger_ok_def counters_match_def list.pred_map comp_def g)
  next
    case event
    from update_event_shape [OF event] obtain cur rest f0 ev f where
      cu: "filter (\<lambda>r. inventory_id r = i) ?inv = cur # rest"
      and cs: "check_status req cur = (f0, True, Some ev)"
      and f: "f = fst (check_fields req cur (f0, True))"
      and hid: "history_id h = next_history_id d" and htid: "tmh_tool_id h = tool_id cur"
      and hty: "event_type h = me_type ev" and hnd: "\<not> is_deleted h"
      and d1: "d1 = d\<lparr>centralized_inventory :=
                 map (\<lambda>r. if inventory_id r = i then apply_fields f r else r) ?inv,
              tool_maintenance_history := ?led @ [h],
              next_history_id := Suc (next_history_id d)\<rparr>"
      by auto
    define g where "g = (\<lambda>r. if inventory_id r = i then apply_fields f r else r)"
    have d1g: "d1 = d\<lparr>centralized_inventory := map g ?inv,
              tool_maintenance_history := ?led @ [h],
              next_history_id := Suc (next_history_id d)\<rparr>"
      using d1 by (simp add: g_def)
    have gk: "\<And>r. tool_id (g r) = tool_id r" "\<And>r. inventory_id (g r) = inventory_id r"
      by (simp_all add: g_def apply_fields_keys)
    have "cur \<in> set (filter (\<lambda>r. inventory_id r = i) ?inv)" using cu by simp
    then have cin: "cur \<in> set ?inv" and ci: "inventory_id cur = i" by simp_all
    have dinv: "distinct (map inventory_id ?inv)" and dtid: "distinct (map tool_id ?inv)"
      and dh: "distinct (map history_id ?led)"
      and oldk: "\<forall>x\<in>set ?inv. inventory_id x < next_inventory_id d
                     \<and> tool_id x < next_tool_id d"
      and oldh: "\<forall>x\<in>set ?led. history_id x < next_history_id d"
      using k by (auto simp: keys_ok_def list_all_iff)
    have only: "\<And>r. r \<in> set ?inv \<Longrightarrow> inventory_id r = i \<Longrightarrow> r = cur"
      using distinct_key_eq [OF dinv _ cin] ci by simp
    have other: "\<And>r. r \<in> set ?inv \<Longrightarrow> r \<noteq> cur \<Longrightarrow> tool_id r \<noteq> tool_id cur"
      using distinct_key_eq [OF dtid _ cin] by blast
    note row = apply_event_row [OF cs f]
    have K: "keys_ok d1"
      unfolding d1g keys_ok_def
      using dinv dtid dh oldk oldh hid
      by (auto simp: list.pred_map comp_def gk list_all_iff)
    have L: "ledger_ok d1"
      unfolding d1g ledger_ok_def
      using l row(2) hty hnd htid oldk cin
      by (auto simp: ledger_ok_def list_all_iff)
    have one: "count_events [h] t e
                 = (if t = tool_id cur \<and> e = me_type ev then 1 else 0)" for t e
      using htid hty hnd by (simp add: count_events_def)
    have C: "counters_match d1"
      unfolding counters_match_def list_all_iff
    proof
      fix x assume "x \<in> set (centralized_inventory d1)"
      then obtain r where rin: "r \<in> set ?inv" and x: "x = g r" using d1g by auto
      have old: "number_of_regrinding r = count_events ?led (tool_id r) ''regrinding''"
        "number_of_resegmentation r = count_events ?led (tool_id r) ''resegmentation''"
        using c rin by (auto simp: counters_match_def list_all_iff)
      show "number_of_regrinding x
              = count_events (tool_maintenance_history d1) (tool_id x) ''regrinding''
          \<and> number_of_resegmentation x
              = count_events (tool_maintenance_history d1) (tool_id x) ''resegmentation''"
      proof (cases "r = cur")
        case True
        then show ?thesis
          using x ci row old d1g
          by (auto simp: g_def count_events_append one apply_fields_keys)
      next
        case False
        then have "inventory_id r \<noteq> i" "tool_id r \<noteq> tool_id cur"
          using only [OF rin] other [OF rin] by auto
        then show ?thesis
          using x old d1g by (simp add: g_def count_events_append one)
      qed
    qed
    show ?thesis using event K L C by simp
  qed
qed


lemma length_filter_remove:
  assumes "distinct (map k xs)" and "x \<in> set xs"
  shows "int (length (filter P (filter (\<lambda>h. k h \<noteq> k x) xs)))
           = int (length (filter P xs)) - (if P x then 1 else 0)"
  using assms
proof (induction xs)
  case Nil
  then show ?case by simp
next
  case (Cons a xs)
  show ?case
  proof (cases "a = x")
    case True
    have "\<forall>h\<in>set xs. k h \<noteq> k x"
      using Cons.prems(1) True by (auto simp: image_iff)
    then have "filter (\<lambda>h. k h \<noteq> k x) xs = xs"
      by (simp add: filter_id_conv)
    then show ?thesis using True by simp
  next
    case False
    then have xin: "x \<in> set xs" using Cons.prems(2) by simp
    have ne: "k a \<noteq> k x"
      using Cons.prems(1) xin by (auto simp: image_iff)
    have ih: "int (length (filter P (filter (\<lambda>h. k h \<noteq> k x) xs)))
           = int (length (filter P xs)) - (if P x then 1 else 0)"
      using Cons.IH Cons.prems(1) xin by simp
    have "filter P (filter (\<lambda>h. k h \<noteq> k x) (a # xs))
            = (if P a then [a] else []) @ filter P (filter (\<lambda>h. k h \<noteq> k x) xs)"
      using ne by simp
    moreover have "filter P (a # xs) = (if P a then [a] else []) @ filter P xs"
      by simp
    ultimately show ?thesis using ih by (simp only: length_append of_nat_add)
  qed
qed

lemma count_events_remove:
  assumes "distinct (map history_id xs)" and "x \<in> set xs" and "\<not> is_deleted x"
  shows "count_events (filter (\<lambda>h. history_id h \<noteq> history_id x) xs) t e
           = count_events xs t e
             - (if tmh_tool_id x = t \<and> event_type x = e then 1 else 0)"
  unfolding count_events_def
  using length_filter_remove [OF assms(1,2),
      of "\<lambda>h. tmh_tool_id h = t \<and> event_type h = e \<and> \<not> is_deleted h"] assms(3)
  by simp

lemma delete_preserves:
  assumes k: "keys_ok d" and l: "ledger_ok d" and c: "counters_match d"
  shows "keys_ok (snd (deleteMaintenanceHistory hid d))
       \<and> ledger_ok (snd (deleteMaintenanceHistory hid d))
       \<and> counters_match (snd (deleteMaintenanceHistory hid d))"
proof (cases "filter (\<lambda>h. history_id h = hid) (tool_maintenance_history d)")
  case Nil
  then show ?thesis using k l c by (simp add: deleteMaintenanceHistory_def)
next
  case (Cons rec rest)
  let ?inv = "centralized_inventory d"
  let ?led = "tool_maintenance_history d"
  have "rec \<in> set (filter (\<lambda>h. history_id h = hid) ?led)" using Cons by simp
  then have rin: "rec \<in> set ?led" and rid: "history_id rec = hid" by simp_all
  show ?thesis
  proof (cases "filter (\<lambda>r. tool_id r = tmh_tool_id rec) ?inv")
    case Nil
    then show ?thesis using Cons k l c by (simp add: deleteMaintenanceHistory_def)
  next
    case (Cons cur rest2)
    have rty: "event_type rec = ''regrinding'' \<or> event_type rec = ''resegmentation''"
      and rnd: "\<not> is_deleted rec"
      using l rin by (auto simp: ledger_ok_def list_all_iff)
    have dh: "distinct (map history_id ?led)" using k by (simp add: keys_ok_def)
    obtain g where res: "snd (deleteMaintenanceHistory hid d)
        = d\<lparr>tool_maintenance_history := filter (\<lambda>h. history_id h \<noteq> hid) ?led,
            centralized_inventory :=
              map (\<lambda>r. if tool_id r = tmh_tool_id rec then g r else r) ?inv\<rparr>"
      and g: "\<And>r. tool_id (g r) = tool_id r" "\<And>r. inventory_id (g r) = inventory_id r"
        "\<And>r. number_of_regrinding (g r)
               = number_of_regrinding r - (if event_type rec = ''regrinding'' then 1 else 0)"
        "\<And>r. number_of_resegmentation (g r)
               = number_of_resegmentation r
                 - (if event_type rec = ''regrinding'' then 0 else 1)"
      using \<open>filter (\<lambda>h. history_id h = hid) ?led = rec # rest\<close> Cons
      by (cases "event_type rec = ''regrinding''")
         (simp_all add: deleteMaintenanceHistory_def Let_def)
    define m where "m = (\<lambda>r. if tool_id r = tmh_tool_id rec then g r else r)"
    have mk: "\<And>r. tool_id (m r) = tool_id r" "\<And>r. inventory_id (m r) = inventory_id r"
      by (simp_all add: m_def g)
    have resm: "snd (deleteMaintenanceHistory hid d)
        = d\<lparr>tool_maintenance_history := filter (\<lambda>h. history_id h \<noteq> hid) ?led,
            centralized_inventory := map m ?inv\<rparr>"
      using res by (simp add: m_def)
    have K: "keys_ok (snd (deleteMaintenanceHistory hid d))"
      unfolding resm keys_ok_def
      using k by (auto simp: keys_ok_def list.pred_map comp_def mk list_all_iff distinct_map_filter)
    have L: "ledger_ok (snd (deleteMaintenanceHistory hid d))"
      unfolding resm ledger_ok_def
      using l by (auto simp: ledger_ok_def list_all_iff)
    have cnt: "count_events (filter (\<lambda>h. history_id h \<noteq> hid) ?led) t e
           = count_events ?led t e
             - (if tmh_tool_id rec = t \<and> event_type rec = e then 1 else 0)" for t e
      using count_events_remove [OF dh rin rnd, of t e] rid by simp
    have C: "counters_match (snd (deleteMaintenanceHistory hid d))"
      unfolding resm counters_match_def list_all_iff
    proof
      fix x assume "x \<in> set (centralized_inventory
          (d\<lparr>tool_maintenance_history := filter (\<lambda>h. history_id h \<noteq> hid) ?led,
            centralized_inventory := map m ?inv\<rparr>))"
      then obtain r where r: "r \<in> set ?inv" and x: "x = m r" by auto
      have old: "number_of_regrinding r = count_events ?led (tool_id r) ''regrinding''"
        "number_of_resegmentation r = count_events ?led (tool_id r) ''resegmentation''"
        using c r by (auto simp: counters_match_def list_all_iff)
      show "number_of_regrinding x
              = count_events (tool_maintenance_history
                  (d\<lparr>tool_maintenance_history := filter (\<lambda>h. history_id h \<noteq> hid) ?led,
                     centralized_inventory := map m ?inv\<rparr>)) (tool_id x) ''regrinding''
          \<and> number_of_resegmentation x
              = count_events (tool_maintenance_history
                  (d\<lparr>tool_maintenance_history := filter (\<lambda>h. history_id h \<noteq> hid) ?led,
                     centralized_inventory := map m ?inv\<rparr>)) (tool_id x) ''resegmentation''"
        using x old rty by (auto simp: m_def g cnt)
    qed
    show ?thesis using K L C by simp
  qed
qed

lemma reachable_invariant:
  "reachable d \<Longrightarrow> keys_ok d \<and> ledger_ok d \<and> counters_match d"
proof (induction rule: reachable.induct)
  case (start facs)
  show ?case
    by (simp add: empty_db_def keys_ok_def ledger_ok_def counters_match_def)
next
  case (created d req u)
  then show ?case using create_preserves by blast
next
  case (imported d tools u now)
  then show ?case using import_preserves by blast
next
  case (updated d u now i req)
  then show ?case using update_preserves by blast
next
  case (reversed d historyId)
  then show ?case using delete_preserves by blast
qed

text \<open>
  C1 (as amended). After any sequence of tool creations without preset counters,
  historical imports of regrinding and resegmentation events, tool updates (applying a
  maintenance event on a status change to a sentinel) and reversals, starting from an
  empty store, number_of_regrinding and number_of_resegmentation of every tool equal the
  numbers of non-deleted ledger events of the tool of the matching type. The life
  equation is not part of it: an import sets current_tool_life and baseline_tool_life
  to the same supplied value next to ledger entries with their own life_consumed.
\<close>

theorem C1_counters_match_ledger:
  assumes "reachable d"
  shows "\<forall>r\<in>set (centralized_inventory d).
           number_of_regrinding r
             = count_events (tool_maintenance_history d) (tool_id r) ''regrinding''
         \<and> number_of_resegmentation r
             = count_events (tool_maintenance_history d) (tool_id r) ''resegmentation''"
  using reachable_invariant [OF assms] by (simp add: counters_match_def list_all_iff)


lemma serviced_reachable: "reachable serviced_db"
proof -
  have "list_all known_event_types [sample_tool ''T1'' ''cutting'' None]"
    by (simp add: known_event_types_def sample_tool_def sample_events_def)
  then have "reachable imported_db"
    unfolding imported_db_def using reachable.imported [OF reachable.start] by blast
  then show ?thesis
    unfolding serviced_db_def by (rule reachable.updated)
qed

theorem C1_counters_match_ledger_witness:
  "reachable serviced_db
   \<and> map number_of_regrinding (centralized_inventory serviced_db) = [2]
   \<and> count_events (tool_maintenance_history serviced_db) 1 ''regrinding'' = 2
   \<and> map number_of_resegmentation (centralized_inventory serviced_db) = [1]
   \<and> count_events (tool_maintenance_history serviced_db) 1 ''resegmentation'' = 1"
proof -
  have rows: "map number_of_regrinding (centralized_inventory serviced_db) = [2]"
    "map number_of_resegmentation (centralized_inventory serviced_db) = [1]"
    "map tool_id (centralized_inventory serviced_db) = [1]"
    by (simp_all add: serviced_db_rows)
  then obtain r where r: "centralized_inventory serviced_db = [r]"
    "number_of_regrinding r = 2" "number_of_resegmentation r = 1" "tool_id r = 1"
    by auto
  from C1_counters_match_ledger [OF serviced_reachable] r
  have "count_events (tool_maintenance_history serviced_db) 1 ''regrinding'' = 2"
    "count_events (tool_maintenance_history serviced_db) 1 ''resegmentation'' = 1"
    by simp_all
  then show ?thesis using serviced_reachable rows by simp
qed

theorem C1_life_counterexample:
  "reachable (snd (createHistoricalTools unit_admin 0
                     [sample_tool ''T1'' ''cutting'' (Some 150)] (empty_db [1])))
   \<and> map current_tool_life
        (centralized_inventory
          (snd (createHistoricalTools unit_admin 0
                  [sample_tool ''T1'' ''cutting'' (Some 150)] (empty_db [1])))) = [150]
   \<and> map baseline_tool_life
        (centralized_inventory
          (snd (createHistoricalTools unit_admin 0
                  [sample_tool ''T1'' ''cutting'' (Some 150)] (empty_db [1])))) = [150]
   \<and> map tool_id
        (centralized_inventory
          (snd (createHistoricalTools unit_admin 0
                  [sample_tool ''T1'' ''cutting'' (Some 150)] (empty_db [1])))) = [1]
   \<and> ledger_life
        (tool_maintenance_history
          (snd (createHistoricalTools unit_admin 0
                  [sample_tool ''T1'' ''cutting'' (Some 150)] (empty_db [1])))) 1 = 150
   \<and> \<not> life_matches
          (snd (createHistoricalTools unit_admin 0
                  [sample_tool ''T1'' ''cutting'' (Some 150)] (empty_db [1])))"
proof -
  let ?d = "snd (createHistoricalTools unit_admin 0
                  [sample_tool ''T1'' ''cutting'' (Some 150)] (empty_db [1]))"
  have "list_all known_event_types [sample_tool ''T1'' ''cutting'' (Some 150)]"
    by (simp add: known_event_types_def sample_tool_def sample_events_def)
  then have re: "reachable ?d"
    using reachable.imported [OF reachable.start] by blast
  have rows: "map (\<lambda>r. (current_tool_life r, baseline_tool_life r, tool_id r))
                (centralized_inventory ?d) = [(150, 150, 1)]"
    and led: "map (\<lambda>h. (tmh_tool_id h, is_deleted h, life_consumed h))
                (tool_maintenance_history ?d) = [(1, False, 100), (1, False, 50)]"
    by (simp_all add: createHistoricalTools_def import_tool_def
        insert_historical_tool_def insert_history_def Let_def parseFloat_or_zero_def
        validate_eval unit_admin_def case_prod_beta empty_db_def sample_tool_def
        sample_events_def)
  from led obtain h1 h2 where l2: "tool_maintenance_history ?d = [h1, h2]"
    "tmh_tool_id h1 = 1" "\<not> is_deleted h1" "life_consumed h1 = 100"
    "tmh_tool_id h2 = 1" "\<not> is_deleted h2" "life_consumed h2 = 50"
    by auto
  have ll: "ledger_life (tool_maintenance_history ?d) 1 = 150"
    using l2 by (simp add: ledger_life_def)
  from rows obtain r where r: "centralized_inventory ?d = [r]" "current_tool_life r = 150"
    "baseline_tool_life r = 150" "tool_id r = 1"
    by auto
  have "\<not> life_matches ?d"
    using r ll by (simp add: life_matches_def)
  then show ?thesis using re r ll by simp
qed

end
